theory Spec2Isabelle
  imports Complex_Main
begin

section \<open>Python values\<close>

text \<open>
  The orchestrator and its agents exchange loosely typed dictionaries. The values they
  carry are modelled by one datatype. A Python \<^verbatim>\<open>float\<close> is the real number it denotes
  (no arithmetic on floats is done by the code, only the comparison \<^verbatim>\<open>> 0.5\<close>); a
  \<^verbatim>\<open>str\<close> is a HOL string; a \<^verbatim>\<open>dict\<close> is an association list in insertion order.
  Tuples, sets, bytes and instances of classes are left out: the dictionaries of the
  source are built from the values below and are written out as JSON.
\<close>

datatype pyval =
    PNone
  | PBool bool
  | PInt int
  | PFloat real
  | PStr string
  | PList "pyval list"
  | PDict "(pyval \<times> pyval) list"

text \<open>
  Exceptions: \<open>Exc c m\<close> is an instance of a subclass \<open>c\<close> of \<^verbatim>\<open>Exception\<close> whose
  \<^verbatim>\<open>str(e)\<close> is \<open>m\<close>; \<open>BaseExc c m\<close> is a \<^verbatim>\<open>BaseException\<close> outside \<^verbatim>\<open>Exception\<close>
  (\<^verbatim>\<open>CancelledError\<close>, \<^verbatim>\<open>KeyboardInterrupt\<close>, \<^verbatim>\<open>SystemExit\<close>), which
  \<^verbatim>\<open>except Exception\<close> does not catch.
\<close>

datatype exn = Exc string string | BaseExc string string

fun str_exn :: "exn \<Rightarrow> string" where
  "str_exn (Exc c m) = m"
| "str_exn (BaseExc c m) = m"

definition sq :: "string \<Rightarrow> string" where
  "sq s = [CHR 0x27] @ s @ [CHR 0x27]"

definition dq :: "string \<Rightarrow> string" where
  "dq s = [CHR 0x22] @ s @ [CHR 0x22]"

fun type_name :: "pyval \<Rightarrow> string" where
  "type_name PNone = ''NoneType''"
| "type_name (PBool b) = ''bool''"
| "type_name (PInt i) = ''int''"
| "type_name (PFloat r) = ''float''"
| "type_name (PStr s) = ''str''"
| "type_name (PList xs) = ''list''"
| "type_name (PDict d) = ''dict''"

definition AttributeError :: "pyval \<Rightarrow> string \<Rightarrow> exn" where
  "AttributeError v attr =
     Exc ''AttributeError'' (sq (type_name v) @ '' object has no attribute '' @ sq attr)"

definition TypeError :: "string \<Rightarrow> exn" where
  "TypeError m = Exc ''TypeError'' m"

definition KeyError :: "string \<Rightarrow> exn" where
  "KeyError k = Exc ''KeyError'' (sq k)"

text \<open>Truth value testing (\<^verbatim>\<open>if x\<close>, \<^verbatim>\<open>not x\<close>).\<close>

fun truthy :: "pyval \<Rightarrow> bool" where
  "truthy PNone = False"
| "truthy (PBool b) = b"
| "truthy (PInt i) = (i \<noteq> 0)"
| "truthy (PFloat r) = (r \<noteq> 0)"
| "truthy (PStr s) = (s \<noteq> [])"
| "truthy (PList xs) = (xs \<noteq> [])"
| "truthy (PDict d) = (d \<noteq> [])"

text \<open>Numbers: \<^verbatim>\<open>bool\<close>, \<^verbatim>\<open>int\<close> and \<^verbatim>\<open>float\<close> compare by value.\<close>

fun num_of :: "pyval \<Rightarrow> real option" where
  "num_of (PBool b) = Some (if b then 1 else 0)"
| "num_of (PInt i) = Some (of_int i)"
| "num_of (PFloat r) = Some r"
| "num_of v = None"

fun hashable :: "pyval \<Rightarrow> bool" where
  "hashable (PList xs) = False"
| "hashable (PDict d) = False"
| "hashable v = True"

text \<open>Equality of dictionary keys: \<^verbatim>\<open>1 == 1.0 == True\<close> are one key.\<close>

definition key_eq :: "pyval \<Rightarrow> pyval \<Rightarrow> bool" where
  "key_eq a b =
     (case (num_of a, num_of b) of
        (Some x, Some y) \<Rightarrow> x = y
      | (None, None) \<Rightarrow> a = b
      | _ \<Rightarrow> False)"

fun dict_lookup :: "(pyval \<times> pyval) list \<Rightarrow> pyval \<Rightarrow> pyval option" where
  "dict_lookup [] k = None"
| "dict_lookup ((k', v) # d) k = (if key_eq k' k then Some v else dict_lookup d k)"

text \<open>\<^verbatim>\<open>d[k] = v\<close>: an existing key keeps its place (and its key object), a new key goes last.\<close>

fun dict_store :: "(pyval \<times> pyval) list \<Rightarrow> pyval \<Rightarrow> pyval \<Rightarrow> (pyval \<times> pyval) list" where
  "dict_store [] k v = [(k, v)]"
| "dict_store ((k', v') # d) k v =
     (if key_eq k' k then (k', v) # d else (k', v') # dict_store d k v)"

text \<open>\<^verbatim>\<open>x.get(k, default)\<close>\<close>

definition py_get :: "pyval \<Rightarrow> pyval \<Rightarrow> pyval \<Rightarrow> exn + pyval" where
  "py_get x k dflt =
     (case x of
        PDict d \<Rightarrow>
          if hashable k
          then Inr (case dict_lookup d k of Some v \<Rightarrow> v | None \<Rightarrow> dflt)
          else Inl (TypeError (''unhashable type: '' @ sq (type_name k)))
      | _ \<Rightarrow> Inl (AttributeError x ''get''))"

text \<open>\<^verbatim>\<open>x[k]\<close> for a string key \<open>k\<close>.\<close>

definition py_getitem :: "pyval \<Rightarrow> string \<Rightarrow> exn + pyval" where
  "py_getitem x k =
     (case x of
        PDict d \<Rightarrow> (case dict_lookup d (PStr k) of Some v \<Rightarrow> Inr v | None \<Rightarrow> Inl (KeyError k))
      | PStr s \<Rightarrow> Inl (TypeError ''string indices must be integers'')
      | PList xs \<Rightarrow> Inl (TypeError ''list indices must be integers or slices, not str'')
      | _ \<Rightarrow> Inl (TypeError (sq (type_name x) @ '' object is not subscriptable'')))"

text \<open>\<^verbatim>\<open>len(x)\<close>\<close>

definition py_len :: "pyval \<Rightarrow> exn + nat" where
  "py_len x =
     (case x of
        PStr s \<Rightarrow> Inr (length s)
      | PList xs \<Rightarrow> Inr (length xs)
      | PDict d \<Rightarrow> Inr (length d)
      | _ \<Rightarrow> Inl (TypeError (''object of type '' @ sq (type_name x) @ '' has no len()'')))"

text \<open>
  The elements a \<^verbatim>\<open>for\<close> loop or a comprehension visits: the items of a list, the keys
  of a dict, the characters of a string.
\<close>

definition py_iter :: "pyval \<Rightarrow> exn + pyval list" where
  "py_iter x =
     (case x of
        PList xs \<Rightarrow> Inr xs
      | PDict d \<Rightarrow> Inr (map fst d)
      | PStr s \<Rightarrow> Inr (map (\<lambda>c. PStr [c]) s)
      | _ \<Rightarrow> Inl (TypeError (sq (type_name x) @ '' object is not iterable'')))"

text \<open>\<^verbatim>\<open>x > y\<close> where \<open>y\<close> is a float.\<close>

definition py_gt :: "pyval \<Rightarrow> real \<Rightarrow> exn + bool" where
  "py_gt x y =
     (case num_of x of
        Some r \<Rightarrow> Inr (r > y)
      | None \<Rightarrow> Inl (TypeError (sq ''>'' @ '' not supported between instances of ''
                       @ sq (type_name x) @ '' and '' @ sq ''float'')))"

text \<open>\<^verbatim>\<open>x + 1\<close>\<close>

definition py_add1 :: "pyval \<Rightarrow> exn + pyval" where
  "py_add1 x =
     (case x of
        PBool b \<Rightarrow> Inr (PInt ((if b then 1 else 0) + 1))
      | PInt i \<Rightarrow> Inr (PInt (i + 1))
      | PFloat r \<Rightarrow> Inr (PFloat (r + 1))
      | PStr s \<Rightarrow> Inl (TypeError (''can only concatenate str (not '' @ dq ''int'' @ '') to str''))
      | PList xs \<Rightarrow> Inl (TypeError (''can only concatenate list (not '' @ dq ''int'' @ '') to list''))
      | _ \<Rightarrow> Inl (TypeError (''unsupported operand type(s) for +: '' @ sq (type_name x)
                       @ '' and '' @ sq ''int'')))"

text \<open>\<^verbatim>\<open>str.lower\<close> on ASCII text: the letters A to Z are mapped, every other character is kept.\<close>

definition lower_char :: "char \<Rightarrow> char" where
  "lower_char c =
     (case map_of (zip ''ABCDEFGHIJKLMNOPQRSTUVWXYZ'' ''abcdefghijklmnopqrstuvwxyz'') c of
        Some l \<Rightarrow> l
      | None \<Rightarrow> c)"

definition py_lower :: "pyval \<Rightarrow> exn + pyval" where
  "py_lower x =
     (case x of
        PStr s \<Rightarrow> Inr (PStr (map lower_char s))
      | _ \<Rightarrow> Inl (AttributeError x ''lower''))"

text \<open>Sequencing of pure computations that may raise.\<close>

definition sum_bind :: "exn + 'a \<Rightarrow> ('a \<Rightarrow> exn + 'b) \<Rightarrow> exn + 'b" where
  "sum_bind m f = (case m of Inl e \<Rightarrow> Inl e | Inr a \<Rightarrow> f a)"

section \<open>The classification summarizer\<close>

text \<open>
  \<^verbatim>\<open>AgentOrchestrator._generate_qa_classification_summary\<close>. The body of the loop, on the
  two local dictionaries:
  \<^verbatim>\<open>
    label = match.get('qa_classification_label', 5)
    classification_counts[label] = classification_counts.get(label, 0) + 1
    confidence_level = match.get('qa_confidence_level', 'medium').lower()
    if confidence_level in confidence_distribution:
        confidence_distribution[confidence_level] += 1
  \<close>
\<close>

type_synonym pydict = "(pyval \<times> pyval) list"

definition summary_step :: "pyval \<Rightarrow> pydict \<times> pydict \<Rightarrow> exn + pydict \<times> pydict" where
  "summary_step match acc =
     (case acc of (classification_counts, confidence_distribution) \<Rightarrow>
      sum_bind (py_get match (PStr ''qa_classification_label'') (PInt 5)) (\<lambda>label.
      sum_bind (py_get (PDict classification_counts) label (PInt 0)) (\<lambda>old.
      sum_bind (py_add1 old) (\<lambda>new.
      let classification_counts = dict_store classification_counts label new in
      sum_bind (py_get match (PStr ''qa_confidence_level'') (PStr ''medium'')) (\<lambda>lvl.
      sum_bind (py_lower lvl) (\<lambda>confidence_level.
      case dict_lookup confidence_distribution confidence_level of
        Some n \<Rightarrow>
          sum_bind (py_add1 n) (\<lambda>n'.
          Inr (classification_counts, dict_store confidence_distribution confidence_level n'))
      | None \<Rightarrow> Inr (classification_counts, confidence_distribution)))))))"

fun summary_loop :: "pyval list \<Rightarrow> pydict \<times> pydict \<Rightarrow> exn + pydict \<times> pydict" where
  "summary_loop [] acc = Inr acc"
| "summary_loop (match # rest) acc = sum_bind (summary_step match acc) (summary_loop rest)"

definition generate_qa_classification_summary :: "pyval \<Rightarrow> exn + pyval" where
  "generate_qa_classification_summary matches =
     sum_bind (py_iter matches) (\<lambda>ms.
     sum_bind (summary_loop ms
                 ([], [(PStr ''high'', PInt 0), (PStr ''medium'', PInt 0), (PStr ''low'', PInt 0)]))
       (\<lambda>(classification_counts, confidence_distribution).
     sum_bind (py_len matches) (\<lambda>n.
     Inr (PDict [(PStr ''classification_counts'', PDict classification_counts),
                 (PStr ''confidence_distribution'', PDict confidence_distribution),
                 (PStr ''total_items'', PInt (int n))]))))"

section \<open>Effects\<close>

text \<open>
  What the code does beyond computing values is threaded through an explicit state: the
  records of the \<^verbatim>\<open>logging\<close> module, the invocations of the progress callback in the
  order they were made, and the outside world (file system, clock, the state of the
  collaborators), whose type is left open. A computation returns a value or raises.
\<close>

datatype level = INFO | WARNING | ERROR

record 'w state =
  progress_calls :: "(string \<times> real \<times> string) list"
  logged :: "(level \<times> string) list"
  world :: 'w

type_synonym ('w, 'a) io = "'w state \<Rightarrow> (exn + 'a) \<times> 'w state"

definition io_return :: "'a \<Rightarrow> ('w, 'a) io" where
  "io_return a = (\<lambda>s. (Inr a, s))"

definition io_raise :: "exn \<Rightarrow> ('w, 'a) io" where
  "io_raise e = (\<lambda>s. (Inl e, s))"

definition io_bind :: "('w, 'a) io \<Rightarrow> ('a \<Rightarrow> ('w, 'b) io) \<Rightarrow> ('w, 'b) io" where
  "io_bind m f = (\<lambda>s. case m s of (Inl e, s') \<Rightarrow> (Inl e, s') | (Inr a, s') \<Rightarrow> f a s')"

definition io_of :: "exn + 'a \<Rightarrow> ('w, 'a) io" where
  "io_of r = (\<lambda>s. (r, s))"

text \<open>\<^verbatim>\<open>try: body except Exception as e: handler\<close>; a \<open>BaseExc\<close> passes through.\<close>

definition try_except :: "('w, 'a) io \<Rightarrow> (exn \<Rightarrow> ('w, 'a) io) \<Rightarrow> ('w, 'a) io" where
  "try_except body handler =
     (\<lambda>s. case body s of
            (Inl (Exc c m), s') \<Rightarrow> handler (Exc c m) s'
          | (Inl (BaseExc c m), s') \<Rightarrow> (Inl (BaseExc c m), s')
          | (Inr a, s') \<Rightarrow> (Inr a, s'))"

definition logger :: "level \<Rightarrow> string \<Rightarrow> ('w, unit) io" where
  "logger lvl msg = (\<lambda>s. (Inr (), s\<lparr>logged := logged s @ [(lvl, msg)]\<rparr>))"

text \<open>
  The operating system and the standard library, as far as the code uses them. Each
  operation acts on the world; where it can fail it returns the class name and the
  message of the exception, which is an \<^verbatim>\<open>OSError\<close>, \<^verbatim>\<open>UnicodeDecodeError\<close>,
  \<^verbatim>\<open>TypeError\<close> or \<^verbatim>\<open>ValueError\<close>, all subclasses of \<^verbatim>\<open>Exception\<close>.
  \<^item> \<open>read_text p\<close>: \<^verbatim>\<open>with open(p, 'r', encoding='utf-8') as f: f.read()\<close>
  \<^item> \<open>mkdir d\<close>: \<^verbatim>\<open>d.mkdir(parents=True, exist_ok=True)\<close>
  \<^item> \<open>open_w p\<close>: \<^verbatim>\<open>open(p, 'w', encoding='utf-8')\<close>
  \<^item> \<open>json_dump v p\<close>: \<^verbatim>\<open>json.dump(v, f, ensure_ascii=False, indent=2, default=str)\<close>
    into the file opened at \<open>p\<close>, and closing it
  \<^item> \<open>utcnow_isoformat\<close>: \<^verbatim>\<open>datetime.utcnow().isoformat()\<close>
\<close>

datatype path = Path string | Div path string

type_synonym failure = "string \<times> string"

record 'w sys =
  read_text :: "string \<Rightarrow> 'w \<Rightarrow> (failure + string) \<times> 'w"
  mkdir :: "path \<Rightarrow> 'w \<Rightarrow> (failure + unit) \<times> 'w"
  open_w :: "path \<Rightarrow> 'w \<Rightarrow> (failure + unit) \<times> 'w"
  json_dump :: "pyval \<Rightarrow> path \<Rightarrow> 'w \<Rightarrow> (failure + unit) \<times> 'w"
  utcnow_isoformat :: "'w \<Rightarrow> string \<times> 'w"

definition sys_op :: "('w \<Rightarrow> (failure + 'a) \<times> 'w) \<Rightarrow> ('w, 'a) io" where
  "sys_op f =
     (\<lambda>s. case f (world s) of
            (Inl (c, m), w') \<Rightarrow> (Inl (Exc c m), s\<lparr>world := w'\<rparr>)
          | (Inr a, w') \<Rightarrow> (Inr a, s\<lparr>world := w'\<rparr>))"

definition sys_get :: "('w \<Rightarrow> 'a \<times> 'w) \<Rightarrow> ('w, 'a) io" where
  "sys_get f = (\<lambda>s. case f (world s) of (a, w') \<Rightarrow> (Inr a, s\<lparr>world := w'\<rparr>))"

text \<open>\<^verbatim>\<open>str(n)\<close> for a length, as the f-strings print it.\<close>

fun str_nat :: "nat \<Rightarrow> string" where
  "str_nat n =
     (if n < 10 then [''0123456789'' ! n]
      else str_nat (n div 10) @ [''0123456789'' ! (n mod 10)])"

declare str_nat.simps [simp del]

section \<open>The translation agent\<close>

text \<open>
  \<^verbatim>\<open>TranslationAgent.process_document\<close>: the text of the file is passed through as the
  translation. The defaults of the two language parameters are \<^verbatim>\<open>"ja"\<close> and \<^verbatim>\<open>"en"\<close>.
\<close>

record 'g TranslationAgent =
  gemini_client :: 'g

definition process_document ::
  "'w sys \<Rightarrow> 'g TranslationAgent \<Rightarrow> string \<Rightarrow> string \<Rightarrow> string \<Rightarrow> ('w, pyval) io" where
  "process_document env self document_path source_language target_language =
     try_except
       (io_bind (sys_op (read_text env document_path)) (\<lambda>content.
        let translated_content = content in
        io_return (PDict [(PStr ''original_content'', PStr content),
                          (PStr ''translated_content'', PStr translated_content),
                          (PStr ''source_language'', PStr source_language),
                          (PStr ''target_language'', PStr target_language),
                          (PStr ''translation_confidence'', PFloat 0.95)])))
       (\<lambda>e. io_bind (logger ERROR (''Translation failed: '' @ str_exn e)) (\<lambda>_. io_raise e))"

section \<open>The extraction agent\<close>

text \<open>\<^verbatim>\<open>ExtractionAgent.extract_materials_with_qa_classification\<close>: one mock material.\<close>

record 'g ExtractionAgent =
  gemini_client :: 'g

definition extract_materials_with_qa_classification ::
  "'g ExtractionAgent \<Rightarrow> pyval \<Rightarrow> ('w, pyval) io" where
  "extract_materials_with_qa_classification self content =
     try_except
       (let materials =
              PList [PDict [(PStr ''qa_material_name'', PStr ''Sample Material 1''),
                            (PStr ''qa_excerpt'', PStr ''Sample excerpt from document''),
                            (PStr ''part_number'', PStr ''P001''),
                            (PStr ''quantity'', PStr ''10''),
                            (PStr ''unit_of_measure'', PStr ''pcs''),
                            (PStr ''vendor_name'', PStr ''Sample Vendor''),
                            (PStr ''qa_classification_label'', PInt 1),
                            (PStr ''qa_confidence_level'', PStr ''high''),
                            (PStr ''qc_process_step'', PStr ''Step 1''),
                            (PStr ''consumable_jigs_tools'', PBool False)]] in
        io_bind (io_of (py_len materials)) (\<lambda>n.
        io_return (PDict [(PStr ''materials'', materials),
                          (PStr ''extraction_confidence'', PFloat 0.9),
                          (PStr ''total_extracted'', PInt (int n))])))
       (\<lambda>e. io_bind (logger ERROR (''Extraction failed: '' @ str_exn e)) (\<lambda>_. io_raise e))"

section \<open>The orchestrator\<close>

text \<open>
  An agent object is represented by the behaviour of the one method the orchestrator
  calls on it. \<^verbatim>\<open>knowledge_base\<close> and \<^verbatim>\<open>item_matcher\<close> are \<open>None\<close> after a failed
  initialisation; otherwise they hold the behaviour of \<^verbatim>\<open>get_processing_stats\<close> and
  of \<^verbatim>\<open>match_items_with_knowledge_base\<close>, and the object counts as true in a condition.
\<close>

record 'w AgentOrchestrator =
  translation_agent :: "string \<Rightarrow> string \<Rightarrow> string \<Rightarrow> ('w, pyval) io"
  extraction_agent :: "pyval \<Rightarrow> ('w, pyval) io"
  supplier_bom_agent :: "string \<Rightarrow> ('w, pyval) io"
  comparison_agent :: "pyval \<Rightarrow> pyval \<Rightarrow> ('w, pyval) io"
  knowledge_base :: "('w, pyval) io option"
  item_matcher :: "(pyval \<Rightarrow> pyval \<Rightarrow> string \<Rightarrow> ('w, pyval) io) option"

text \<open>
  \<^verbatim>\<open>AgentOrchestrator.__init__\<close>. The classes \<^verbatim>\<open>SupplierBOMAgent\<close>, \<^verbatim>\<open>ComparisonAgent\<close>,
  \<^verbatim>\<open>KnowledgeBase\<close> and \<^verbatim>\<open>ItemMatcher\<close> are imported from modules outside the source
  at hand: the two agents are taken as already constructed, the constructors of the
  knowledge base and of the matcher as computations that may raise.
\<close>

definition AgentOrchestrator_init ::
  "'w sys \<Rightarrow> 'g \<Rightarrow> (string \<Rightarrow> ('w, pyval) io) \<Rightarrow> (pyval \<Rightarrow> pyval \<Rightarrow> ('w, pyval) io)
   \<Rightarrow> ('w, ('w, pyval) io) io
   \<Rightarrow> (('w, pyval) io \<Rightarrow> ('w, pyval \<Rightarrow> pyval \<Rightarrow> string \<Rightarrow> ('w, pyval) io) io)
   \<Rightarrow> ('w, 'w AgentOrchestrator) io" where
  "AgentOrchestrator_init env gemini SupplierBOMAgent ComparisonAgent KnowledgeBase ItemMatcher =
     io_bind
       (try_except
          (io_bind KnowledgeBase (\<lambda>kb.
           io_bind (ItemMatcher kb) (\<lambda>im.
           io_return (Some kb, Some im))))
          (\<lambda>e. io_bind (logger WARNING (''Failed to initialize knowledge base: '' @ str_exn e)) (\<lambda>_.
                io_return (None, None))))
       (\<lambda>(kb, im).
     io_bind (logger INFO
       ''Enhanced Autonomous Agent Orchestrator initialized with QA classification and Knowledge Base'')
       (\<lambda>_.
     io_return
       \<lparr>translation_agent = process_document env \<lparr>TranslationAgent.gemini_client = gemini\<rparr>,
        extraction_agent =
          extract_materials_with_qa_classification \<lparr>ExtractionAgent.gemini_client = gemini\<rparr>,
        supplier_bom_agent = SupplierBOMAgent,
        comparison_agent = ComparisonAgent,
        knowledge_base = kb,
        item_matcher = im\<rparr>))"

text \<open>
  \<^verbatim>\<open>_save_stage_result\<close>: the stage directory is \<^verbatim>\<open>Path(f"results/{workflow_id}")\<close>, the
  file \<^verbatim>\<open>stage_dir / f"{stage}_result.json"\<close>.
\<close>

definition save_stage_result :: "'w sys \<Rightarrow> string \<Rightarrow> string \<Rightarrow> pyval \<Rightarrow> ('w, unit) io" where
  "save_stage_result env workflow_id stage result =
     try_except
       (let stage_dir = Path (''results/'' @ workflow_id) in
        io_bind (sys_op (mkdir env stage_dir)) (\<lambda>_.
        let stage_file = Div stage_dir (stage @ ''_result.json'') in
        io_bind (sys_op (open_w env stage_file)) (\<lambda>_.
        io_bind (sys_op (json_dump env result stage_file)) (\<lambda>_.
        logger INFO (''Saved '' @ stage @ '' results for workflow '' @ workflow_id)))))
       (\<lambda>e. logger WARNING (''Failed to save stage result: '' @ str_exn e))"

text \<open>
  The progress callback is awaited at each milestone when one is given:
  \<^verbatim>\<open>if progress_callback: await progress_callback(stage, progress, message)\<close>.
  It acts on the world and returns or raises; the invocation is recorded.
\<close>

type_synonym 'w callback = "string \<Rightarrow> real \<Rightarrow> string \<Rightarrow> 'w \<Rightarrow> (exn + unit) \<times> 'w"

definition notify :: "'w callback option \<Rightarrow> string \<Rightarrow> real \<Rightarrow> string \<Rightarrow> ('w, unit) io" where
  "notify progress_callback stage progress message =
     (case progress_callback of
        None \<Rightarrow> io_return ()
      | Some cb \<Rightarrow>
          (\<lambda>s. case cb stage progress message (world s) of
                 (r, w') \<Rightarrow>
                   (r, s\<lparr>progress_calls := progress_calls s @ [(stage, progress, message)],
                          world := w'\<rparr>)))"

text \<open>\<^verbatim>\<open>not result or not result.get(key)\<close>\<close>

definition no_output :: "pyval \<Rightarrow> string \<Rightarrow> exn + bool" where
  "no_output result key =
     (if \<not> truthy result then Inr True
      else sum_bind (py_get result (PStr key) PNone) (\<lambda>v. Inr (\<not> truthy v)))"

text \<open>\<^verbatim>\<open>len([m for m in xs if cond(m)])\<close>\<close>

fun count_where :: "(pyval \<Rightarrow> exn + bool) \<Rightarrow> pyval list \<Rightarrow> exn + nat" where
  "count_where cond [] = Inr 0"
| "count_where cond (m # ms) =
     sum_bind (cond m) (\<lambda>b.
     sum_bind (count_where cond ms) (\<lambda>n. Inr (if b then Suc n else n)))"

text \<open>
  \<^verbatim>\<open>process_documents_enhanced\<close>. The body of its \<^verbatim>\<open>try\<close> block is given stage by
  stage (lines 54 to 70, 72 to 89, 91 to 106 and 108 to 150 of the source file), the
  dictionary \<^verbatim>\<open>final_result\<close> of lines 129 to 142 on its own; \<open>try_block\<close> runs
  the stages in sequence.
\<close>

definition stage_translation ::
  "'w sys \<Rightarrow> 'w AgentOrchestrator \<Rightarrow> string \<Rightarrow> string \<Rightarrow> 'w callback option \<Rightarrow> ('w, pyval) io" where
  "stage_translation env self qa_document_path workflow_id progress_callback =
     io_bind (notify progress_callback ''translation'' 5
                ''Translation agent processing QA document...'') (\<lambda>_.
     io_bind (translation_agent self qa_document_path ''ja'' ''en'') (\<lambda>translation_result.
     io_bind (save_stage_result env workflow_id ''translation'' translation_result) (\<lambda>_.
     io_bind (io_of (no_output translation_result ''translated_content'')) (\<lambda>missing.
     if missing
     then io_raise (Exc ''Exception'' ''Translation failed - no translated content received'')
     else
     io_bind (notify progress_callback ''translation'' 30
                ''Translation completed successfully'') (\<lambda>_.
     io_return translation_result)))))"

definition stage_extraction ::
  "'w sys \<Rightarrow> 'w AgentOrchestrator \<Rightarrow> string \<Rightarrow> 'w callback option \<Rightarrow> pyval \<Rightarrow> ('w, pyval) io" where
  "stage_extraction env self workflow_id progress_callback translation_result =
     io_bind (notify progress_callback ''extraction'' 35
                ''Extraction agent processing materials with QA classification...'') (\<lambda>_.
     io_bind (io_of (py_getitem translation_result ''translated_content'')) (\<lambda>content.
     io_bind (extraction_agent self content) (\<lambda>extraction_result.
     io_bind (save_stage_result env workflow_id ''extraction'' extraction_result) (\<lambda>_.
     io_bind (io_of (no_output extraction_result ''materials'')) (\<lambda>missing.
     if missing
     then io_raise (Exc ''Exception'' ''Material extraction failed - no materials extracted'')
     else
     io_bind (io_of (py_getitem extraction_result ''materials'')) (\<lambda>extracted_materials.
     io_bind (io_of (py_len extracted_materials)) (\<lambda>n.
     io_bind (logger INFO (''Extracted '' @ str_nat n @ '' materials with QA classification'')) (\<lambda>_.
     io_bind (notify progress_callback ''extraction'' 60
                (''Extracted '' @ str_nat n @ '' materials with QA classification'')) (\<lambda>_.
     io_return extracted_materials)))))))))"

definition stage_supplier_bom ::
  "'w sys \<Rightarrow> 'w AgentOrchestrator \<Rightarrow> string \<Rightarrow> string \<Rightarrow> 'w callback option \<Rightarrow> ('w, pyval) io" where
  "stage_supplier_bom env self supplier_bom_path workflow_id progress_callback =
     io_bind (notify progress_callback ''supplier_bom'' 65
                ''Supplier BOM agent processing Excel/CSV data...'') (\<lambda>_.
     io_bind (supplier_bom_agent self supplier_bom_path) (\<lambda>supplier_result.
     io_bind (save_stage_result env workflow_id ''supplier_bom'' supplier_result) (\<lambda>_.
     io_bind (io_of (no_output supplier_result ''items'')) (\<lambda>missing.
     if missing
     then io_raise (Exc ''Exception'' ''Supplier BOM processing failed - no items extracted'')
     else
     io_bind (io_of (py_getitem supplier_result ''items'')) (\<lambda>supplier_items.
     io_bind (io_of (py_len supplier_items)) (\<lambda>n.
     io_bind (logger INFO (''Processed '' @ str_nat n @ '' supplier BOM items'')) (\<lambda>_.
     io_bind (notify progress_callback ''supplier_bom'' 80
                (''Processed '' @ str_nat n @ '' supplier BOM items'')) (\<lambda>_.
     io_return supplier_items))))))))"

definition build_final_result ::
  "'w sys \<Rightarrow> 'w AgentOrchestrator \<Rightarrow> string \<Rightarrow> pyval \<Rightarrow> pyval \<Rightarrow> pyval \<Rightarrow> ('w, pyval) io" where
  "build_final_result env self workflow_id extracted_materials supplier_items enhanced_matches =
     io_bind (io_of (py_len extracted_materials)) (\<lambda>total_materials.
     io_bind (io_of (py_len supplier_items)) (\<lambda>total_supplier_items.
     io_bind (io_of (py_iter enhanced_matches)) (\<lambda>ms.
     io_bind (io_of (count_where
                (\<lambda>m. sum_bind (py_get m (PStr ''confidence_score'') (PInt 0)) (\<lambda>c. py_gt c 0.5)) ms))
       (\<lambda>successful_matches.
     io_bind (io_of (count_where
                (\<lambda>m. sum_bind (py_get m (PStr ''has_previous_match'') (PBool False))
                        (\<lambda>p. Inr (truthy p))) ms))
       (\<lambda>knowledge_base_matches.
     io_bind (sys_get (utcnow_isoformat env)) (\<lambda>processing_date.
     io_bind (case knowledge_base self of
                Some get_processing_stats \<Rightarrow> get_processing_stats
              | None \<Rightarrow> io_return (PDict [])) (\<lambda>knowledge_base_stats.
     io_bind (io_of (generate_qa_classification_summary enhanced_matches))
       (\<lambda>qa_classification_summary.
     io_return
       (PDict [(PStr ''workflow_id'', PStr workflow_id),
               (PStr ''matches'', enhanced_matches),
               (PStr ''summary'',
                  PDict [(PStr ''total_materials'', PInt (int total_materials)),
                         (PStr ''total_supplier_items'', PInt (int total_supplier_items)),
                         (PStr ''successful_matches'', PInt (int successful_matches)),
                         (PStr ''knowledge_base_matches'', PInt (int knowledge_base_matches)),
                         (PStr ''processing_date'', PStr processing_date),
                         (PStr ''enhanced_matching'', PBool True)]),
               (PStr ''knowledge_base_stats'', knowledge_base_stats),
               (PStr ''qa_classification_summary'', qa_classification_summary)])))))))))"

definition stage_comparison ::
  "'w sys \<Rightarrow> 'w AgentOrchestrator \<Rightarrow> string \<Rightarrow> 'w callback option \<Rightarrow> pyval \<Rightarrow> pyval
   \<Rightarrow> ('w, pyval) io" where
  "stage_comparison env self workflow_id progress_callback extracted_materials supplier_items =
     io_bind (notify progress_callback ''comparison'' 85
                ''Enhanced comparison agent using knowledge base...'') (\<lambda>_.
     io_bind (case item_matcher self of
                Some match_items_with_knowledge_base \<Rightarrow>
                  match_items_with_knowledge_base extracted_materials supplier_items workflow_id
              | None \<Rightarrow> comparison_agent self extracted_materials supplier_items)
       (\<lambda>enhanced_matches.
     io_bind (notify progress_callback ''comparison'' 95
                ''Knowledge base matching completed'') (\<lambda>_.
     io_bind (build_final_result env self workflow_id extracted_materials supplier_items
                enhanced_matches) (\<lambda>final_result.
     io_bind (save_stage_result env workflow_id ''final'' final_result) (\<lambda>_.
     io_bind (notify progress_callback ''completed'' 100
                ''Processing completed successfully'') (\<lambda>_.
     io_bind (logger INFO (''Enhanced workflow '' @ workflow_id @ '' completed successfully''))
       (\<lambda>_.
     io_return final_result)))))))"

definition try_block ::
  "'w sys \<Rightarrow> 'w AgentOrchestrator \<Rightarrow> string \<Rightarrow> string \<Rightarrow> string \<Rightarrow> 'w callback option
   \<Rightarrow> ('w, pyval) io" where
  "try_block env self qa_document_path supplier_bom_path workflow_id progress_callback =
     io_bind (stage_translation env self qa_document_path workflow_id progress_callback)
       (\<lambda>translation_result.
     io_bind (stage_extraction env self workflow_id progress_callback translation_result)
       (\<lambda>extracted_materials.
     io_bind (stage_supplier_bom env self supplier_bom_path workflow_id progress_callback)
       (\<lambda>supplier_items.
     stage_comparison env self workflow_id progress_callback extracted_materials
       supplier_items)))"

definition process_documents_enhanced ::
  "'w sys \<Rightarrow> 'w AgentOrchestrator \<Rightarrow> string \<Rightarrow> string \<Rightarrow> string \<Rightarrow> 'w callback option
   \<Rightarrow> ('w, pyval) io" where
  "process_documents_enhanced env self qa_document_path supplier_bom_path workflow_id
     progress_callback =
     io_bind (logger INFO (''Starting enhanced autonomous workflow for '' @ workflow_id)) (\<lambda>_.
     try_except
       (try_block env self qa_document_path supplier_bom_path workflow_id progress_callback)
       (\<lambda>e.
        io_bind (logger ERROR (''Enhanced workflow failed for '' @ workflow_id @ '': '' @ str_exn e))
          (\<lambda>_.
        io_bind (notify progress_callback ''error'' 0 (''Processing failed: '' @ str_exn e)) (\<lambda>_.
        io_raise e))))"

text \<open>
  \<^verbatim>\<open>BOMComparisonResult\<close> is a pydantic model with the fields
  \<^verbatim>\<open>workflow_id: str\<close>, \<^verbatim>\<open>matches: List[Dict[str, Any]]\<close> and \<^verbatim>\<open>summary: Dict[str, Any]\<close>.
  Its constructor validates the arguments against these types and raises
  \<^verbatim>\<open>ValidationError\<close> (the message is abridged to the name of the field).
\<close>

fun str_keyed_dict :: "pyval \<Rightarrow> bool" where
  "str_keyed_dict (PDict d) = list_all (\<lambda>(k, v). case k of PStr s \<Rightarrow> True | _ \<Rightarrow> False) d"
| "str_keyed_dict v = False"

fun list_of_str_keyed_dicts :: "pyval \<Rightarrow> bool" where
  "list_of_str_keyed_dicts (PList xs) = list_all str_keyed_dict xs"
| "list_of_str_keyed_dicts v = False"

record BOMComparisonResult =
  workflow_id :: string
  matches :: pyval
  summary :: pyval

definition BOMComparisonResult_new :: "pyval \<Rightarrow> pyval \<Rightarrow> pyval \<Rightarrow> exn + BOMComparisonResult" where
  "BOMComparisonResult_new wid ms sm =
     (case wid of
        PStr w \<Rightarrow>
          if \<not> list_of_str_keyed_dicts ms then Inl (Exc ''ValidationError'' ''matches'')
          else if \<not> str_keyed_dict sm then Inl (Exc ''ValidationError'' ''summary'')
          else Inr \<lparr>workflow_id = w, matches = ms, summary = sm\<rparr>
      | _ \<Rightarrow> Inl (Exc ''ValidationError'' ''workflow_id''))"

text \<open>\<^verbatim>\<open>process_documents\<close>, the legacy entry point.\<close>

definition process_documents ::
  "'w sys \<Rightarrow> 'w AgentOrchestrator \<Rightarrow> string \<Rightarrow> string \<Rightarrow> string \<Rightarrow> 'w callback option
   \<Rightarrow> ('w, BOMComparisonResult) io" where
  "process_documents env self qa_document_path supplier_bom_path wf_id progress_callback =
     io_bind (process_documents_enhanced env self qa_document_path supplier_bom_path wf_id
                progress_callback) (\<lambda>result.
     io_bind (io_of (py_getitem result ''workflow_id'')) (\<lambda>wid.
     io_bind (io_of (py_getitem result ''matches'')) (\<lambda>ms.
     io_bind (io_of (py_getitem result ''summary'')) (\<lambda>sm.
     io_of (BOMComparisonResult_new wid ms sm)))))"

section \<open>Notions used in the statements\<close>

text \<open>
  A match record as the summarizer expects it: a dictionary whose
  \<^verbatim>\<open>qa_classification_label\<close>, when present, can be a dictionary key, and whose
  \<^verbatim>\<open>qa_confidence_level\<close>, when present, is a string.
\<close>

fun match_record_ok :: "pyval \<Rightarrow> bool" where
  "match_record_ok (PDict d) =
     ((case dict_lookup d (PStr ''qa_classification_label'') of
         None \<Rightarrow> True
       | Some l \<Rightarrow> hashable l) \<and>
      (case dict_lookup d (PStr ''qa_confidence_level'') of
         None \<Rightarrow> True
       | Some (PStr l) \<Rightarrow> True
       | Some _ \<Rightarrow> False))"
| "match_record_ok v = False"

text \<open>
  The confidence level under which the specification counts a match record: a record
  without the field counts as medium, otherwise the field in lower case.
\<close>

fun spec_confidence_level :: "pyval \<Rightarrow> string" where
  "spec_confidence_level (PDict d) =
     (case dict_lookup d (PStr ''qa_confidence_level'') of
        None \<Rightarrow> ''medium''
      | Some (PStr l) \<Rightarrow> map lower_char l
      | Some _ \<Rightarrow> [])"
| "spec_confidence_level v = []"

definition level_count :: "string \<Rightarrow> pyval list \<Rightarrow> int" where
  "level_count l ms = int (length (filter (\<lambda>m. spec_confidence_level m = l) ms))"

fun is_count :: "pyval \<times> pyval \<Rightarrow> bool" where
  "is_count (k, PInt n) = True"
| "is_count (k, v) = False"

definition counts_ok :: "pydict \<Rightarrow> bool" where
  "counts_ok cc = list_all is_count cc"

text \<open>
  The shape of a material record: the listed fields are present, the classification
  label is an integer, the confidence level one of high, medium, low, and the consumable
  flag a boolean. The names of three of the fields are parameters: the specification's
  \<^verbatim>\<open>ExtractedMaterial\<close> calls them \<^verbatim>\<open>material_name\<close>, \<^verbatim>\<open>excerpt\<close> and
  \<^verbatim>\<open>is_consumable\<close>.
\<close>

definition material_shape :: "string \<Rightarrow> string \<Rightarrow> string \<Rightarrow> pyval \<Rightarrow> bool" where
  "material_shape name_field excerpt_field consumable_field m =
     (case m of
        PDict d \<Rightarrow>
          list_all (\<lambda>k. dict_lookup d (PStr k) \<noteq> None)
            [name_field, excerpt_field, ''part_number'', ''quantity'', ''vendor_name'',
             ''qa_classification_label'', ''qa_confidence_level'', ''qc_process_step'',
             consumable_field]
          \<and> (case dict_lookup d (PStr ''qa_classification_label'') of
                Some (PInt i) \<Rightarrow> True | _ \<Rightarrow> False)
          \<and> (case dict_lookup d (PStr ''qa_confidence_level'') of
                Some (PStr l) \<Rightarrow> l = ''high'' \<or> l = ''medium'' \<or> l = ''low'' | _ \<Rightarrow> False)
          \<and> (case dict_lookup d (PStr consumable_field) of
                Some (PBool b) \<Rightarrow> True | _ \<Rightarrow> False)
      | _ \<Rightarrow> False)"

definition spec_ExtractedMaterial :: "pyval \<Rightarrow> bool" where
  "spec_ExtractedMaterial = material_shape ''material_name'' ''excerpt'' ''is_consumable''"

text \<open>The material records in the outcome of the extraction stage.\<close>

definition extracted_materials_of :: "(exn + pyval) \<times> 'w state \<Rightarrow> pyval list" where
  "extracted_materials_of outcome =
     (case fst outcome of
        Inr r \<Rightarrow> (case py_getitem r ''materials'' of Inr (PList ms) \<Rightarrow> ms | _ \<Rightarrow> [])
      | Inl e \<Rightarrow> [])"

definition mock_material :: pyval where
  "mock_material =
     PDict [(PStr ''qa_material_name'', PStr ''Sample Material 1''),
            (PStr ''qa_excerpt'', PStr ''Sample excerpt from document''),
            (PStr ''part_number'', PStr ''P001''),
            (PStr ''quantity'', PStr ''10''),
            (PStr ''unit_of_measure'', PStr ''pcs''),
            (PStr ''vendor_name'', PStr ''Sample Vendor''),
            (PStr ''qa_classification_label'', PInt 1),
            (PStr ''qa_confidence_level'', PStr ''high''),
            (PStr ''qc_process_step'', PStr ''Step 1''),
            (PStr ''consumable_jigs_tools'', PBool False)]"

section \<open>A small concrete environment\<close>

text \<open>
  The world is a list of files, each a name with its text. Reading looks the name up;
  the other operations succeed and leave the world as it is. Two variants fail where
  a stage result is saved.
\<close>

definition demo_env :: "(string \<times> string) list sys" where
  "demo_env =
     \<lparr>read_text = (\<lambda>p w. case map_of w p of
                              Some t \<Rightarrow> (Inr t, w)
                            | None \<Rightarrow> (Inl (''FileNotFoundError'', ''No such file or directory''), w)),
      mkdir = (\<lambda>d w. (Inr (), w)),
      open_w = (\<lambda>p w. (Inr (), w)),
      json_dump = (\<lambda>v p w. (Inr (), w)),
      utcnow_isoformat = (\<lambda>w. (''2024-01-01T00:00:00'', w))\<rparr>"

definition no_mkdir_env :: "(string \<times> string) list sys" where
  "no_mkdir_env = demo_env\<lparr>mkdir := (\<lambda>d w. (Inl (''PermissionError'', ''Permission denied''), w))\<rparr>"

definition no_open_env :: "(string \<times> string) list sys" where
  "no_open_env = demo_env\<lparr>open_w := (\<lambda>p w. (Inl (''PermissionError'', ''Permission denied''), w))\<rparr>"

definition full_disk_env :: "(string \<times> string) list sys" where
  "full_disk_env =
     demo_env\<lparr>json_dump := (\<lambda>v p w. (Inl (''OSError'', ''No space left on device''), w))\<rparr>"

definition demo_state :: "(string \<times> string) list state" where
  "demo_state =
     \<lparr>progress_calls = [], logged = [],
      world = [(''qa.txt'', ''Bolt M6''), (''empty.txt'', '''')]\<rparr>"

section \<open>Further notions used in the statements\<close>

text \<open>The state after the opening log record of \<^verbatim>\<open>process_documents_enhanced\<close>.\<close>

definition started :: "string \<Rightarrow> 'w state \<Rightarrow> 'w state" where
  "started wid s =
     s\<lparr>logged := logged s @ [(INFO, ''Starting enhanced autonomous workflow for '' @ wid)]\<rparr>"

text \<open>
  Collaborators for the concrete environment: a callback that returns, one that raises,
  and an orchestrator whose knowledge base is absent, with the two agents of the source
  and constant stand-ins for the supplier and comparison agents.
\<close>

definition ok_callback :: "(string \<times> string) list callback" where
  "ok_callback stage progress message w = (Inr (), w)"

definition failing_callback :: "(string \<times> string) list callback" where
  "failing_callback stage progress message w = (Inl (Exc ''RuntimeError'' ''callback down''), w)"

definition demo_match :: pyval where
  "demo_match =
     PDict [(PStr ''qa_material_name'', PStr ''Sample Material 1''),
            (PStr ''confidence_score'', PFloat 0.9),
            (PStr ''has_previous_match'', PBool False),
            (PStr ''qa_classification_label'', PInt 1),
            (PStr ''qa_confidence_level'', PStr ''high'')]"

definition demo_orchestrator :: "(string \<times> string) list AgentOrchestrator" where
  "demo_orchestrator =
     \<lparr>translation_agent = process_document demo_env \<lparr>TranslationAgent.gemini_client = ()\<rparr>,
      extraction_agent =
        extract_materials_with_qa_classification \<lparr>ExtractionAgent.gemini_client = ()\<rparr>,
      supplier_bom_agent =
        (\<lambda>path. io_return (PDict [(PStr ''items'',
                                     PList [PDict [(PStr ''item_name'', PStr ''Bolt M6x20'')]])])),
      comparison_agent = (\<lambda>materials items. io_return (PList [demo_match])),
      knowledge_base = None,
      item_matcher = None\<rparr>"

definition no_materials_orchestrator :: "(string \<times> string) list AgentOrchestrator" where
  "no_materials_orchestrator =
     demo_orchestrator
       \<lparr>extraction_agent := (\<lambda>content. io_return (PDict [(PStr ''materials'', PList [])]))\<rparr>"

definition no_items_orchestrator :: "(string \<times> string) list AgentOrchestrator" where
  "no_items_orchestrator = demo_orchestrator\<lparr>supplier_bom_agent := (\<lambda>path. io_return PNone)\<rparr>"

text \<open>
  A match record on which the result dictionary can be built: besides the two fields the
  summarizer reads, its \<^verbatim>\<open>confidence_score\<close>, when present, is a number.
\<close>

fun match_ok :: "pyval \<Rightarrow> bool" where
  "match_ok (PDict d) =
     (match_record_ok (PDict d) \<and>
      (case dict_lookup d (PStr ''confidence_score'') of
         None \<Rightarrow> True
       | Some c \<Rightarrow> num_of c \<noteq> None))"
| "match_ok v = False"

text \<open>
  The orchestrator that \<^verbatim>\<open>__init__\<close> builds when the knowledge base cannot be
  initialised: both \<^verbatim>\<open>knowledge_base\<close> and \<^verbatim>\<open>item_matcher\<close> are \<^verbatim>\<open>None\<close>.
\<close>

definition degraded_orchestrator ::
  "'w sys \<Rightarrow> 'g \<Rightarrow> (string \<Rightarrow> ('w, pyval) io) \<Rightarrow> (pyval \<Rightarrow> pyval \<Rightarrow> ('w, pyval) io)
   \<Rightarrow> 'w AgentOrchestrator" where
  "degraded_orchestrator env gemini SupplierBOMAgent ComparisonAgent =
     \<lparr>translation_agent = process_document env \<lparr>TranslationAgent.gemini_client = gemini\<rparr>,
      extraction_agent =
        extract_materials_with_qa_classification \<lparr>ExtractionAgent.gemini_client = gemini\<rparr>,
      supplier_bom_agent = SupplierBOMAgent,
      comparison_agent = ComparisonAgent,
      knowledge_base = None,
      item_matcher = None\<rparr>"

text \<open>
  The stand-in agents on their own, a knowledge base whose constructor raises, and a
  matcher constructor that is never reached.
\<close>

definition demo_supplier_agent :: "string \<Rightarrow> ((string \<times> string) list, pyval) io" where
  "demo_supplier_agent path =
     io_return (PDict [(PStr ''items'',
                        PList [PDict [(PStr ''item_name'', PStr ''Bolt M6x20'')]])])"

definition demo_comparison_agent :: "pyval \<Rightarrow> pyval \<Rightarrow> ((string \<times> string) list, pyval) io" where
  "demo_comparison_agent materials items = io_return (PList [demo_match])"

definition broken_knowledge_base ::
  "((string \<times> string) list, ((string \<times> string) list, pyval) io) io" where
  "broken_knowledge_base = io_raise (Exc ''OSError'' ''knowledge base unavailable'')"

definition demo_item_matcher ::
  "((string \<times> string) list, pyval) io
   \<Rightarrow> ((string \<times> string) list,
       pyval \<Rightarrow> pyval \<Rightarrow> string \<Rightarrow> ((string \<times> string) list, pyval) io) io" where
  "demo_item_matcher kb = io_return (\<lambda>materials items wid. io_return (PList []))"

text \<open>An orchestrator whose comparison agent reports no matches as an empty dictionary.\<close>

definition empty_dict_orchestrator :: "(string \<times> string) list AgentOrchestrator" where
  "empty_dict_orchestrator =
     demo_orchestrator\<lparr>comparison_agent := (\<lambda>materials items. io_return (PDict []))\<rparr>"

section \<open>Sequencing lemmas\<close>

lemma io_bind_return [simp]: "io_bind (io_return a) f = f a"
  by (simp add: io_bind_def io_return_def)

lemma io_bind_raise [simp]: "io_bind (io_raise e) f = io_raise e"
  by (simp add: io_bind_def io_raise_def)

lemma io_bind_of_Inr [simp]: "io_bind (io_of (Inr a)) f = f a"
  by (simp add: io_bind_def io_of_def)

lemma io_bind_of_Inl [simp]: "io_bind (io_of (Inl e)) f = io_raise e"
  by (simp add: io_bind_def io_of_def io_raise_def)

lemma io_bind_Inr: "m s = (Inr a, s') \<Longrightarrow> io_bind m f s = f a s'"
  by (simp add: io_bind_def)


lemma io_bind_InrE:
  assumes "io_bind m f s = (Inr b, t)"
  obtains a s' where "m s = (Inr a, s')" and "f a s' = (Inr b, t)"
  using assms by (auto simp: io_bind_def split: prod.splits sum.splits)

lemma try_except_Inr: "body s = (Inr a, s') \<Longrightarrow> try_except body h s = (Inr a, s')"
  by (simp add: try_except_def)

lemma try_except_Exc: "body s = (Inl (Exc c m), s') \<Longrightarrow> try_except body h s = h (Exc c m) s'"
  by (simp add: try_except_def)

lemma try_except_BaseExc:
  "body s = (Inl (BaseExc c m), s') \<Longrightarrow> try_except body h s = (Inl (BaseExc c m), s')"
  by (simp add: try_except_def)

section \<open>Properties of the summarizer\<close>

text \<open>
  Claim C5. On the empty match list the summarizer returns no classification counts, a
  confidence distribution with high, medium and low all 0, and total_items 0.
\<close>

theorem summary_empty:
  "generate_qa_classification_summary (PList []) =
     Inr (PDict [(PStr ''classification_counts'', PDict []),
                 (PStr ''confidence_distribution'',
                    PDict [(PStr ''high'', PInt 0), (PStr ''medium'', PInt 0), (PStr ''low'', PInt 0)]),
                 (PStr ''total_items'', PInt 0)])"
  by (simp add: generate_qa_classification_summary_def py_iter_def py_len_def sum_bind_def)

lemma is_count_iff: "is_count (k, v) = (\<exists>n. v = PInt n)"
  by (cases v) auto

lemma lookup_counts_ok: "counts_ok cc \<Longrightarrow> dict_lookup cc k = Some v \<Longrightarrow> \<exists>n. v = PInt n"
  by (induction cc) (auto simp: counts_ok_def is_count_iff split: if_splits)

lemma store_counts_ok: "counts_ok cc \<Longrightarrow> counts_ok (dict_store cc k (PInt n))"
  by (induction cc) (auto simp: counts_ok_def)

lemma key_eq_str [simp]: "key_eq (PStr a) (PStr b) = (a = b)"
  by (simp add: key_eq_def)

lemma py_add1_int: "py_add1 (PInt i) = Inr (PInt (i + 1))"
  by (simp add: py_add1_def)

text \<open>One pass of the loop body over a well-formed record.\<close>

lemma summary_step_ok:
  assumes "match_record_ok m" "counts_ok cc"
  shows "\<exists>cc'. summary_step m
            (cc, [(PStr ''high'', PInt a), (PStr ''medium'', PInt b), (PStr ''low'', PInt c)])
      = Inr (cc', [(PStr ''high'', PInt (a + level_count ''high'' [m])),
                   (PStr ''medium'', PInt (b + level_count ''medium'' [m])),
                   (PStr ''low'', PInt (c + level_count ''low'' [m]))]) \<and> counts_ok cc'"
proof -
  obtain d where d: "m = PDict d" using assms(1) by (cases m) auto
  define label where
    "label = (case dict_lookup d (PStr ''qa_classification_label'') of Some v \<Rightarrow> v | None \<Rightarrow> PInt 5)"
  have hl: "hashable label" using assms(1) d by (auto simp: label_def split: option.splits)
  have g1: "py_get m (PStr ''qa_classification_label'') (PInt 5) = Inr label"
    by (simp add: d py_get_def label_def)
  have "\<exists>n. sum_bind (py_get (PDict cc) label (PInt 0)) py_add1 = Inr (PInt n)"
  proof (cases "dict_lookup cc label")
    case None
    then show ?thesis using hl by (simp add: py_get_def sum_bind_def py_add1_def)
  next
    case (Some v)
    then obtain k where "v = PInt k" using lookup_counts_ok[OF assms(2)] by blast
    then show ?thesis using hl Some by (simp add: py_get_def sum_bind_def py_add1_def)
  qed
  then obtain n where "sum_bind (py_get (PDict cc) label (PInt 0)) py_add1 = Inr (PInt n)"
    by blast
  then obtain old where o1: "py_get (PDict cc) label (PInt 0) = Inr old"
    and o2: "py_add1 old = Inr (PInt n)"
    by (auto simp: sum_bind_def split: sum.splits)
  define s where "s = spec_confidence_level m"
  have "sum_bind (py_get m (PStr ''qa_confidence_level'') (PStr ''medium'')) py_lower = Inr (PStr s)"
    using assms(1)
    by (auto simp: d s_def py_get_def sum_bind_def py_lower_def lower_char_def
             split: option.splits pyval.splits)
  then obtain lv where l1: "py_get m (PStr ''qa_confidence_level'') (PStr ''medium'') = Inr lv"
    and l2: "py_lower lv = Inr (PStr s)"
    by (auto simp: sum_bind_def split: sum.splits)
  have ok: "counts_ok (dict_store cc label (PInt n))" by (rule store_counts_ok[OF assms(2)])
  show ?thesis
    unfolding summary_step_def
    using ok
    by (auto simp: g1 o1 o2 l1 l2 sum_bind_def level_count_def s_def[symmetric] py_add1_int)
qed

lemma level_count_Cons: "level_count l (m # ms) = level_count l [m] + level_count l ms"
  by (simp add: level_count_def)

lemma summary_loop_ok:
  "list_all match_record_ok ms \<Longrightarrow> counts_ok cc \<Longrightarrow>
   \<exists>cc'. summary_loop ms
           (cc, [(PStr ''high'', PInt a), (PStr ''medium'', PInt b), (PStr ''low'', PInt c)])
      = Inr (cc', [(PStr ''high'', PInt (a + level_count ''high'' ms)),
                   (PStr ''medium'', PInt (b + level_count ''medium'' ms)),
                   (PStr ''low'', PInt (c + level_count ''low'' ms))])"
proof (induction ms arbitrary: cc a b c)
  case Nil
  then show ?case by (simp add: level_count_def)
next
  case (Cons m ms)
  then have m: "match_record_ok m" and ms: "list_all match_record_ok ms" by simp_all
  from summary_step_ok[OF m Cons.prems(2), of a b c] obtain cc1 where
    s: "summary_step m
          (cc, [(PStr ''high'', PInt a), (PStr ''medium'', PInt b), (PStr ''low'', PInt c)])
      = Inr (cc1, [(PStr ''high'', PInt (a + level_count ''high'' [m])),
                   (PStr ''medium'', PInt (b + level_count ''medium'' [m])),
                   (PStr ''low'', PInt (c + level_count ''low'' [m]))])"
    and ok: "counts_ok cc1" by blast
  from Cons.IH[OF ms ok, of "a + level_count ''high'' [m]" "b + level_count ''medium'' [m]"
      "c + level_count ''low'' [m]"]
  show ?case
    by (simp add: s sum_bind_def level_count_Cons[of _ m ms] add.assoc)
qed

lemma summary_of_records:
  assumes "list_all match_record_ok ms"
  shows "\<exists>cc. generate_qa_classification_summary (PList ms) =
     Inr (PDict [(PStr ''classification_counts'', PDict cc),
                 (PStr ''confidence_distribution'',
                    PDict [(PStr ''high'', PInt (level_count ''high'' ms)),
                           (PStr ''medium'', PInt (level_count ''medium'' ms)),
                           (PStr ''low'', PInt (level_count ''low'' ms))]),
                 (PStr ''total_items'', PInt (int (length ms)))])"
proof -
  from summary_loop_ok[OF assms, of "[]" 0 0 0] obtain cc where
    "summary_loop ms ([], [(PStr ''high'', PInt 0), (PStr ''medium'', PInt 0), (PStr ''low'', PInt 0)])
      = Inr (cc, [(PStr ''high'', PInt (level_count ''high'' ms)),
                  (PStr ''medium'', PInt (level_count ''medium'' ms)),
                  (PStr ''low'', PInt (level_count ''low'' ms))])"
    by (auto simp: counts_ok_def)
  then show ?thesis
    by (simp add: generate_qa_classification_summary_def py_iter_def py_len_def sum_bind_def)
qed

text \<open>
  Claim C6. For every list of match records the summarizer returns a summary in which a
  record without \<^verbatim>\<open>qa_confidence_level\<close> is counted under medium, a record whose level in
  lower case is none of high, medium, low is counted under no bucket and raises nothing,
  and \<^verbatim>\<open>total_items\<close> is the length of the list.
\<close>

theorem summary_confidence_distribution:
  assumes "list_all match_record_ok ms"
  shows "\<exists>cc. generate_qa_classification_summary (PList ms) =
     Inr (PDict [(PStr ''classification_counts'', PDict cc),
                 (PStr ''confidence_distribution'',
                    PDict [(PStr ''high'', PInt (level_count ''high'' ms)),
                           (PStr ''medium'', PInt (level_count ''medium'' ms)),
                           (PStr ''low'', PInt (level_count ''low'' ms))]),
                 (PStr ''total_items'', PInt (int (length ms)))])"
  using assms by (rule summary_of_records)

theorem summary_confidence_distribution_witness:
  "list_all match_record_ok
     [PDict [],
      PDict [(PStr ''qa_confidence_level'', PStr ''HIGH'')],
      PDict [(PStr ''qa_classification_label'', PInt 2),
             (PStr ''qa_confidence_level'', PStr ''urgent'')]]
   \<and> (\<exists>cc. generate_qa_classification_summary
        (PList [PDict [],
                PDict [(PStr ''qa_confidence_level'', PStr ''HIGH'')],
                PDict [(PStr ''qa_classification_label'', PInt 2),
                       (PStr ''qa_confidence_level'', PStr ''urgent'')]]) =
     Inr (PDict [(PStr ''classification_counts'', PDict cc),
                 (PStr ''confidence_distribution'',
                    PDict [(PStr ''high'', PInt 1), (PStr ''medium'', PInt 1),
                           (PStr ''low'', PInt 0)]),
                 (PStr ''total_items'', PInt 3)]))"
  using summary_confidence_distribution
    [of "[PDict [],
      PDict [(PStr ''qa_confidence_level'', PStr ''HIGH'')],
      PDict [(PStr ''qa_classification_label'', PInt 2),
             (PStr ''qa_confidence_level'', PStr ''urgent'')]]"]
  by (simp add: level_count_def lower_char_def)

section \<open>Saving a stage result\<close>

lemma save_total: "fst (save_stage_result env wid stage result s) = Inr ()"
  unfolding save_stage_result_def Let_def try_except_def io_bind_def sys_op_def logger_def
  by (auto split: prod.splits sum.splits exn.splits)

lemma save_calls:
  "progress_calls (snd (save_stage_result env wid stage result s)) = progress_calls s"
  unfolding save_stage_result_def Let_def try_except_def io_bind_def sys_op_def logger_def
  by (auto split: prod.splits sum.splits exn.splits)

lemma save_returns:
  "\<exists>s'. save_stage_result env wid stage result s = (Inr (), s')
        \<and> progress_calls s' = progress_calls s"
  by (metis save_total save_calls prod.collapse)

lemma save_mkdir_fails:
  assumes "mkdir env (Path (''results/'' @ wid)) (world s) = (Inl (c, m), w1)"
  shows "save_stage_result env wid stage result s =
     (Inr (), s\<lparr>world := w1,
                logged := logged s @ [(WARNING, ''Failed to save stage result: '' @ m)]\<rparr>)"
  using assms
  by (simp add: save_stage_result_def Let_def try_except_def io_bind_def sys_op_def logger_def)

lemma save_open_fails:
  assumes "mkdir env (Path (''results/'' @ wid)) (world s) = (Inr (), w1)"
    and "open_w env (Div (Path (''results/'' @ wid)) (stage @ ''_result.json'')) w1
           = (Inl (c, m), w2)"
  shows "save_stage_result env wid stage result s =
     (Inr (), s\<lparr>world := w2,
                logged := logged s @ [(WARNING, ''Failed to save stage result: '' @ m)]\<rparr>)"
  using assms
  by (simp add: save_stage_result_def Let_def try_except_def io_bind_def sys_op_def logger_def)

lemma save_dump_fails:
  assumes "mkdir env (Path (''results/'' @ wid)) (world s) = (Inr (), w1)"
    and "open_w env (Div (Path (''results/'' @ wid)) (stage @ ''_result.json'')) w1
           = (Inr (), w2)"
    and "json_dump env result (Div (Path (''results/'' @ wid)) (stage @ ''_result.json'')) w2
           = (Inl (c, m), w3)"
  shows "save_stage_result env wid stage result s =
     (Inr (), s\<lparr>world := w3,
                logged := logged s @ [(WARNING, ''Failed to save stage result: '' @ m)]\<rparr>)"
  using assms
  by (simp add: save_stage_result_def Let_def try_except_def io_bind_def sys_op_def logger_def)

lemma save_succeeds:
  assumes "mkdir env (Path (''results/'' @ wid)) (world s) = (Inr (), w1)"
    and "open_w env (Div (Path (''results/'' @ wid)) (stage @ ''_result.json'')) w1
           = (Inr (), w2)"
    and "json_dump env result (Div (Path (''results/'' @ wid)) (stage @ ''_result.json'')) w2
           = (Inr (), w3)"
  shows "save_stage_result env wid stage result s =
     (Inr (), s\<lparr>world := w3,
                logged := logged s @
                  [(INFO, ''Saved '' @ stage @ '' results for workflow '' @ wid)]\<rparr>)"
  using assms
  by (simp add: save_stage_result_def Let_def try_except_def io_bind_def sys_op_def logger_def)

lemma io_bind_save:
  "io_bind (save_stage_result env wid stage result) f s =
     f () (snd (save_stage_result env wid stage result s))"
  using save_total[of env wid stage result s]
  by (cases "save_stage_result env wid stage result s") (simp add: io_bind_def)

text \<open>
  Claim C3. For every workflow id, stage name and result, \<^verbatim>\<open>_save_stage_result\<close> returns
  and never raises; what follows it in the workflow runs; and a failure to create the
  directory, to open the file or to write the JSON is logged as a warning.
\<close>

theorem save_stage_result_never_raises:
  "fst (save_stage_result env wid stage result s) = Inr ()
   \<and> (\<forall>f. io_bind (save_stage_result env wid stage result) f s
            = f () (snd (save_stage_result env wid stage result s)))
   \<and> progress_calls (snd (save_stage_result env wid stage result s)) = progress_calls s
   \<and> (\<forall>c m w1. mkdir env (Path (''results/'' @ wid)) (world s) = (Inl (c, m), w1) \<longrightarrow>
        snd (save_stage_result env wid stage result s) =
          s\<lparr>world := w1,
            logged := logged s @ [(WARNING, ''Failed to save stage result: '' @ m)]\<rparr>)
   \<and> (\<forall>c m w1 w2. mkdir env (Path (''results/'' @ wid)) (world s) = (Inr (), w1) \<and>
        open_w env (Div (Path (''results/'' @ wid)) (stage @ ''_result.json'')) w1
          = (Inl (c, m), w2) \<longrightarrow>
        snd (save_stage_result env wid stage result s) =
          s\<lparr>world := w2,
            logged := logged s @ [(WARNING, ''Failed to save stage result: '' @ m)]\<rparr>)
   \<and> (\<forall>c m w1 w2 w3. mkdir env (Path (''results/'' @ wid)) (world s) = (Inr (), w1) \<and>
        open_w env (Div (Path (''results/'' @ wid)) (stage @ ''_result.json'')) w1
          = (Inr (), w2) \<and>
        json_dump env result (Div (Path (''results/'' @ wid)) (stage @ ''_result.json'')) w2
          = (Inl (c, m), w3) \<longrightarrow>
        snd (save_stage_result env wid stage result s) =
          s\<lparr>world := w3,
            logged := logged s @ [(WARNING, ''Failed to save stage result: '' @ m)]\<rparr>)"
proof -
  have cont: "io_bind (save_stage_result env wid stage result) f s
            = f () (snd (save_stage_result env wid stage result s))"
    for f :: "unit \<Rightarrow> ('a, 'b) io"
    by (rule io_bind_save)
  show ?thesis
    using save_total[of env wid stage result s] save_calls[of env wid stage result s] cont
    by (simp add: save_mkdir_fails save_open_fails save_dump_fails)
qed

theorem save_stage_result_never_raises_witness:
  "mkdir no_mkdir_env (Path (''results/'' @ ''wf1'')) (world demo_state)
     = (Inl (''PermissionError'', ''Permission denied''), world demo_state)
   \<and> save_stage_result no_mkdir_env ''wf1'' ''final'' PNone demo_state =
       (Inr (), demo_state\<lparr>logged :=
          [(WARNING, ''Failed to save stage result: Permission denied'')]\<rparr>)
   \<and> mkdir no_open_env (Path (''results/'' @ ''wf1'')) (world demo_state)
       = (Inr (), world demo_state)
   \<and> open_w no_open_env (Div (Path (''results/'' @ ''wf1'')) (''final'' @ ''_result.json''))
         (world demo_state)
       = (Inl (''PermissionError'', ''Permission denied''), world demo_state)
   \<and> save_stage_result no_open_env ''wf1'' ''final'' PNone demo_state =
       (Inr (), demo_state\<lparr>logged :=
          [(WARNING, ''Failed to save stage result: Permission denied'')]\<rparr>)
   \<and> mkdir full_disk_env (Path (''results/'' @ ''wf1'')) (world demo_state)
       = (Inr (), world demo_state)
   \<and> open_w full_disk_env (Div (Path (''results/'' @ ''wf1'')) (''final'' @ ''_result.json''))
         (world demo_state)
       = (Inr (), world demo_state)
   \<and> json_dump full_disk_env PNone
         (Div (Path (''results/'' @ ''wf1'')) (''final'' @ ''_result.json'')) (world demo_state)
       = (Inl (''OSError'', ''No space left on device''), world demo_state)
   \<and> save_stage_result full_disk_env ''wf1'' ''final'' PNone demo_state =
       (Inr (), demo_state\<lparr>logged :=
          [(WARNING, ''Failed to save stage result: No space left on device'')]\<rparr>)"
proof -
  have a: "mkdir no_mkdir_env (Path (''results/'' @ ''wf1'')) (world demo_state)
     = (Inl (''PermissionError'', ''Permission denied''), world demo_state)"
    by (simp add: no_mkdir_env_def demo_env_def)
  have b1: "mkdir no_open_env (Path (''results/'' @ ''wf1'')) (world demo_state)
       = (Inr (), world demo_state)"
    by (simp add: no_open_env_def demo_env_def)
  have b2: "open_w no_open_env (Div (Path (''results/'' @ ''wf1'')) (''final'' @ ''_result.json''))
         (world demo_state)
       = (Inl (''PermissionError'', ''Permission denied''), world demo_state)"
    by (simp add: no_open_env_def demo_env_def)
  have c1: "mkdir full_disk_env (Path (''results/'' @ ''wf1'')) (world demo_state)
       = (Inr (), world demo_state)"
    by (simp add: full_disk_env_def demo_env_def)
  have c2: "open_w full_disk_env (Div (Path (''results/'' @ ''wf1'')) (''final'' @ ''_result.json''))
         (world demo_state)
       = (Inr (), world demo_state)"
    by (simp add: full_disk_env_def demo_env_def)
  have c3: "json_dump full_disk_env PNone
         (Div (Path (''results/'' @ ''wf1'')) (''final'' @ ''_result.json'')) (world demo_state)
       = (Inl (''OSError'', ''No space left on device''), world demo_state)"
    by (simp add: full_disk_env_def demo_env_def)
  note t1 = save_stage_result_never_raises[of no_mkdir_env "''wf1''" "''final''" PNone demo_state]
  note t2 = save_stage_result_never_raises[of no_open_env "''wf1''" "''final''" PNone demo_state]
  note t3 = save_stage_result_never_raises[of full_disk_env "''wf1''" "''final''" PNone demo_state]
  have r1: "save_stage_result no_mkdir_env ''wf1'' ''final'' PNone demo_state =
       (Inr (), demo_state\<lparr>logged :=
          [(WARNING, ''Failed to save stage result: Permission denied'')]\<rparr>)"
  proof -
    from t1 have "fst (save_stage_result no_mkdir_env ''wf1'' ''final'' PNone demo_state) = Inr ()"
      by (rule conjunct1)
    moreover from t1 a have "snd (save_stage_result no_mkdir_env ''wf1'' ''final'' PNone demo_state)
       = demo_state\<lparr>world := world demo_state, logged := logged demo_state @
          [(WARNING, ''Failed to save stage result: '' @ ''Permission denied'')]\<rparr>"
      by blast
    ultimately show ?thesis by (simp add: prod_eq_iff demo_state_def)
  qed
  have r2: "save_stage_result no_open_env ''wf1'' ''final'' PNone demo_state =
       (Inr (), demo_state\<lparr>logged :=
          [(WARNING, ''Failed to save stage result: Permission denied'')]\<rparr>)"
  proof -
    from t2 have "fst (save_stage_result no_open_env ''wf1'' ''final'' PNone demo_state) = Inr ()"
      by (rule conjunct1)
    moreover from t2 b1 b2 have "snd (save_stage_result no_open_env ''wf1'' ''final'' PNone demo_state)
       = demo_state\<lparr>world := world demo_state, logged := logged demo_state @
          [(WARNING, ''Failed to save stage result: '' @ ''Permission denied'')]\<rparr>"
      by blast
    ultimately show ?thesis by (simp add: prod_eq_iff demo_state_def)
  qed
  have r3: "save_stage_result full_disk_env ''wf1'' ''final'' PNone demo_state =
       (Inr (), demo_state\<lparr>logged :=
          [(WARNING, ''Failed to save stage result: No space left on device'')]\<rparr>)"
  proof -
    from t3 have "fst (save_stage_result full_disk_env ''wf1'' ''final'' PNone demo_state) = Inr ()"
      by (rule conjunct1)
    moreover from t3 c1 c2 c3
    have "snd (save_stage_result full_disk_env ''wf1'' ''final'' PNone demo_state)
       = demo_state\<lparr>world := world demo_state, logged := logged demo_state @
          [(WARNING, ''Failed to save stage result: '' @ ''No space left on device'')]\<rparr>"
      by blast
    ultimately show ?thesis by (simp add: prod_eq_iff demo_state_def)
  qed
  show ?thesis using a b1 b2 c1 c2 c3 r1 r2 r3 by simp
qed

section \<open>The agents\<close>

text \<open>
  Claim C8. For every document whose file can be read, \<^verbatim>\<open>process_document\<close> returns a
  record whose translated content and original content are both the text of the file, with
  translation confidence 0.95; the outcome is the same whatever Gemini client the agent holds.
\<close>

theorem process_document_identity:
  fixes self :: "'g TranslationAgent" and other :: "'h TranslationAgent"
  assumes "read_text env document_path (world s) = (Inr content, w')"
  shows "process_document env self document_path source_language target_language s =
           (Inr (PDict [(PStr ''original_content'', PStr content),
                        (PStr ''translated_content'', PStr content),
                        (PStr ''source_language'', PStr source_language),
                        (PStr ''target_language'', PStr target_language),
                        (PStr ''translation_confidence'', PFloat 0.95)]),
            s\<lparr>world := w'\<rparr>)
         \<and> process_document env other document_path source_language target_language s =
             process_document env self document_path source_language target_language s"
  using assms
  by (simp add: process_document_def try_except_def io_bind_def sys_op_def io_return_def)

theorem process_document_identity_witness:
  "read_text demo_env ''qa.txt'' (world demo_state) = (Inr ''Bolt M6'', world demo_state)
   \<and> process_document demo_env \<lparr>TranslationAgent.gemini_client = ()\<rparr> ''qa.txt'' ''ja'' ''en''
       demo_state =
           (Inr (PDict [(PStr ''original_content'', PStr ''Bolt M6''),
                        (PStr ''translated_content'', PStr ''Bolt M6''),
                        (PStr ''source_language'', PStr ''ja''),
                        (PStr ''target_language'', PStr ''en''),
                        (PStr ''translation_confidence'', PFloat 0.95)]),
            demo_state)"
proof -
  have h: "read_text demo_env ''qa.txt'' (world demo_state) = (Inr ''Bolt M6'', world demo_state)"
    by (simp add: demo_env_def demo_state_def)
  show ?thesis
    using h process_document_identity[OF h, of "\<lparr>TranslationAgent.gemini_client = ()\<rparr>"
        "''ja''" "''en''" "\<lparr>TranslationAgent.gemini_client = ()\<rparr>"]
    by simp
qed

lemma extract_value:
  "extract_materials_with_qa_classification self content s =
     (Inr (PDict [(PStr ''materials'', PList [mock_material]),
                  (PStr ''extraction_confidence'', PFloat 0.9),
                  (PStr ''total_extracted'', PInt 1)]), s)"
  by (simp add: extract_materials_with_qa_classification_def Let_def try_except_def io_return_def
        py_len_def mock_material_def)

text \<open>
  Claim C9. \<^verbatim>\<open>extract_materials_with_qa_classification\<close> is constant: for any two inputs
  it returns the same result, the single mock material with extraction confidence 0.9 and
  total_extracted 1, and leaves the state as it is.
\<close>

theorem extraction_constant:
  fixes self :: "'g ExtractionAgent" and other :: "'h ExtractionAgent"
  shows "extract_materials_with_qa_classification self content s =
     (Inr (PDict [(PStr ''materials'', PList [mock_material]),
                  (PStr ''extraction_confidence'', PFloat 0.9),
                  (PStr ''total_extracted'', PInt 1)]), s)
   \<and> extract_materials_with_qa_classification other content' s =
       extract_materials_with_qa_classification self content s"
  by (simp add: extract_value)

text \<open>
  Claim C7, as the specification states it, fails: the material record the extraction
  stage produces has no field \<^verbatim>\<open>material_name\<close> (nor \<^verbatim>\<open>excerpt\<close>, nor \<^verbatim>\<open>is_consumable\<close>).
\<close>

theorem extracted_material_shape_counterexample:
  "\<not> list_all spec_ExtractedMaterial
       (extracted_materials_of
          (extract_materials_with_qa_classification \<lparr>ExtractionAgent.gemini_client = ()\<rparr>
             (PStr ''Bolt M6'') demo_state))"
  by (simp add: extract_value extracted_materials_of_def py_getitem_def mock_material_def
        spec_ExtractedMaterial_def material_shape_def)

text \<open>
  Claim C7, amended. Every material record produced by the extraction stage carries the
  fields \<^verbatim>\<open>qa_material_name\<close>, \<^verbatim>\<open>qa_excerpt\<close>, \<^verbatim>\<open>part_number\<close>, \<^verbatim>\<open>quantity\<close>,
  \<^verbatim>\<open>vendor_name\<close>, \<^verbatim>\<open>qa_classification_label\<close> (an integer), \<^verbatim>\<open>qa_confidence_level\<close>
  (one of high, medium, low), \<^verbatim>\<open>qc_process_step\<close> and \<^verbatim>\<open>consumable_jigs_tools\<close>
  (a boolean); and the stage produces at least one record.
\<close>

theorem extracted_material_shape:
  "extracted_materials_of (extract_materials_with_qa_classification self content s) \<noteq> []
   \<and> list_all (material_shape ''qa_material_name'' ''qa_excerpt'' ''consumable_jigs_tools'')
       (extracted_materials_of (extract_materials_with_qa_classification self content s))"
  by (simp add: extract_value extracted_materials_of_def py_getitem_def mock_material_def
        material_shape_def)

section \<open>The workflow\<close>

lemma io_bind_apply:
  "io_bind m f s = (case m s of (Inl e, s') \<Rightarrow> (Inl e, s') | (Inr a, s') \<Rightarrow> f a s')"
  by (simp add: io_bind_def)

lemma io_of_apply: "io_of r s = (r, s)"
  by (simp add: io_of_def)

lemma io_raise_apply: "io_raise e s = (Inl e, s)"
  by (simp add: io_raise_def)

lemma io_return_apply: "io_return a s = (Inr a, s)"
  by (simp add: io_return_def)

lemma logger_apply: "logger lvl msg s = (Inr (), s\<lparr>logged := logged s @ [(lvl, msg)]\<rparr>)"
  by (simp add: logger_def)

lemmas io_apply = io_bind_apply io_of_apply io_raise_apply io_return_apply logger_apply


lemma notify_Some_InrD:
  "notify (Some f) stage p msg s = (Inr (), t) \<Longrightarrow> \<exists>w'. f stage p msg (world s) = (Inr (), w')"
  by (auto simp: notify_def split: prod.splits)

lemma enhanced_unfold:
  "process_documents_enhanced env self qa bom wid cb s =
     try_except (try_block env self qa bom wid cb)
       (\<lambda>e. io_bind (logger ERROR (''Enhanced workflow failed for '' @ wid @ '': '' @ str_exn e))
          (\<lambda>_. io_bind (notify cb ''error'' 0 (''Processing failed: '' @ str_exn e)) (\<lambda>_. io_raise e)))
       (started wid s)"
  by (simp add: process_documents_enhanced_def io_bind_def logger_def started_def)

lemma enhanced_Inr:
  "try_block env self qa bom wid cb (started wid s) = (Inr r, t) \<Longrightarrow>
   process_documents_enhanced env self qa bom wid cb s = (Inr r, t)"
  by (simp add: enhanced_unfold try_except_def)

lemma enhanced_InrD:
  assumes "process_documents_enhanced env self qa bom wid cb s = (Inr r, t)"
  shows "try_block env self qa bom wid cb (started wid s) = (Inr r, t)"
proof (cases "try_block env self qa bom wid cb (started wid s)")
  case (Pair res t')
  show ?thesis
  proof (cases res)
    case (Inr a)
    then show ?thesis using assms Pair by (simp add: enhanced_unfold try_except_def)
  next
    case (Inl e)
    then show ?thesis using assms Pair
      by (cases e) (auto simp: enhanced_unfold try_except_def io_bind_def logger_def io_raise_def
          split: prod.splits sum.splits)
  qed
qed








section \<open>Evaluating concrete runs\<close>

lemma try_except_apply:
  "try_except body handler s =
     (case body s of
        (Inl (Exc c m), s') \<Rightarrow> handler (Exc c m) s'
      | (Inl (BaseExc c m), s') \<Rightarrow> (Inl (BaseExc c m), s')
      | (Inr a, s') \<Rightarrow> (Inr a, s'))"
  by (simp add: try_except_def)

lemma sys_op_apply:
  "sys_op f s =
     (case f (world s) of
        (Inl (c, m), w') \<Rightarrow> (Inl (Exc c m), s\<lparr>world := w'\<rparr>)
      | (Inr a, w') \<Rightarrow> (Inr a, s\<lparr>world := w'\<rparr>))"
  by (simp add: sys_op_def)

lemma sys_get_apply:
  "sys_get f s = (case f (world s) of (a, w') \<Rightarrow> (Inr a, s\<lparr>world := w'\<rparr>))"
  by (simp add: sys_get_def)

lemma notify_apply:
  "notify (Some cb) stage progress message s =
     (case cb stage progress message (world s) of
        (r, w') \<Rightarrow>
          (r, s\<lparr>progress_calls := progress_calls s @ [(stage, progress, message)],
                 world := w'\<rparr>))"
  "notify None stage progress message s = (Inr (), s)"
  by (simp_all add: notify_def io_return_def)

lemmas run_defs =
  process_documents_enhanced_def try_block_def stage_translation_def stage_extraction_def
  stage_supplier_bom_def stage_comparison_def build_final_result_def save_stage_result_def
  process_document_def extract_materials_with_qa_classification_def
  generate_qa_classification_summary_def summary_step_def
  io_apply try_except_apply sys_op_apply sys_get_apply notify_apply
  no_output_def sum_bind_def py_get_def py_getitem_def py_len_def py_iter_def py_gt_def
  py_add1_def py_lower_def lower_char_def key_eq_def Let_def started_def

lemmas demo_defs =
  demo_env_def demo_state_def demo_orchestrator_def no_materials_orchestrator_def
  no_items_orchestrator_def ok_callback_def failing_callback_def demo_match_def


section \<open>A failing progress callback\<close>






lemma try_block_InrE:
  assumes "try_block env self qa bom wid cb s = (Inr r, t)"
  obtains tr em si s1 s2 s3 where
    "stage_translation env self qa wid cb s = (Inr tr, s1)"
    "stage_extraction env self wid cb tr s1 = (Inr em, s2)"
    "stage_supplier_bom env self bom wid cb s2 = (Inr si, s3)"
    "stage_comparison env self wid cb em si s3 = (Inr r, t)"
  using assms unfolding try_block_def
  apply (elim io_bind_InrE)
  apply (erule that)
  apply assumption+
  done





section \<open>The result dictionary\<close>

lemma build_final_result_fields:
  assumes "build_final_result env self wid em si ms u = (Inr r, u')"
  shows "py_getitem r ''workflow_id'' = Inr (PStr wid)
       \<and> py_getitem r ''matches'' = Inr ms
       \<and> (\<exists>sm. py_getitem r ''summary'' = Inr sm \<and> str_keyed_dict sm)"
  using assms unfolding build_final_result_def
  apply (elim io_bind_InrE)
  apply (clarsimp simp: io_return_apply py_getitem_def)
  done

lemma stage_comparison_fields:
  assumes "stage_comparison env self wid cb em si s = (Inr r, t)"
  shows "py_getitem r ''workflow_id'' = Inr (PStr wid)
       \<and> (\<exists>sm. py_getitem r ''summary'' = Inr sm \<and> str_keyed_dict sm)"
  using assms unfolding stage_comparison_def
  apply (elim io_bind_InrE)
  apply (clarsimp simp: io_return_apply)
  apply (drule build_final_result_fields)
  apply simp
  done

lemma enhanced_fields:
  assumes "process_documents_enhanced env self qa bom wid cb s = (Inr r, t)"
  shows "py_getitem r ''workflow_id'' = Inr (PStr wid)
       \<and> (\<exists>sm. py_getitem r ''summary'' = Inr sm \<and> str_keyed_dict sm)"
proof -
  from assms have "try_block env self qa bom wid cb (started wid s) = (Inr r, t)"
    by (rule enhanced_InrD)
  then obtain tr em si s1 s2 s3 where
    "stage_comparison env self wid cb em si s3 = (Inr r, t)"
    by (rule try_block_InrE)
  then show ?thesis by (rule stage_comparison_fields)
qed

text \<open>
  Claim C10, as the specification states it, fails: when the comparison agent reports no
  matches as an empty dictionary, \<^verbatim>\<open>process_documents_enhanced\<close> succeeds, with that
  dictionary as the matches of its result, and the legacy \<^verbatim>\<open>process_documents\<close> on the
  same input raises, because the constructor of \<^verbatim>\<open>BOMComparisonResult\<close> rejects matches
  that are not a list.
\<close>

theorem legacy_repackages_enhanced_counterexample:
  "fst (process_documents_enhanced demo_env empty_dict_orchestrator ''qa.txt'' ''bom.csv''
          ''wf1'' (Some ok_callback) demo_state) =
     Inr (PDict
        [(PStr ''workflow_id'', PStr ''wf1''), (PStr ''matches'', PDict []),
         (PStr ''summary'',
          PDict
           [(PStr ''total_materials'', PInt 1),
            (PStr ''total_supplier_items'', PInt 1),
            (PStr ''successful_matches'', PInt 0),
            (PStr ''knowledge_base_matches'', PInt 0),
            (PStr ''processing_date'', PStr ''2024-01-01T00:00:00''),
            (PStr ''enhanced_matching'', PBool True)]),
         (PStr ''knowledge_base_stats'', PDict []),
         (PStr ''qa_classification_summary'',
          PDict
           [(PStr ''classification_counts'', PDict []),
            (PStr ''confidence_distribution'',
             PDict
              [(PStr ''high'', PInt 0), (PStr ''medium'', PInt 0),
               (PStr ''low'', PInt 0)]),
            (PStr ''total_items'', PInt 0)])])
   \<and> fst (process_documents demo_env empty_dict_orchestrator ''qa.txt'' ''bom.csv'' ''wf1''
            (Some ok_callback) demo_state) =
       Inl (Exc ''ValidationError'' ''matches'')"
  by (simp add: process_documents_def BOMComparisonResult_new_def empty_dict_orchestrator_def
        run_defs demo_defs str_nat.simps)

text \<open>
  Claim C10, amended. Whenever \<^verbatim>\<open>process_documents_enhanced\<close> succeeds with matches
  that are a list of string-keyed dictionaries, as the schema of \<^verbatim>\<open>BOMComparisonResult\<close>
  requires, the legacy \<^verbatim>\<open>process_documents\<close> succeeds on the same input, in the same
  final state, and returns a \<^verbatim>\<open>BOMComparisonResult\<close> whose workflow_id, matches and
  summary are the entries of the enhanced result.
\<close>

theorem legacy_repackages_enhanced:
  assumes "process_documents_enhanced env self qa bom wid cb s = (Inr result, t)"
    and "py_getitem result ''matches'' = Inr ms"
    and "list_of_str_keyed_dicts ms"
  shows "\<exists>sm. py_getitem result ''workflow_id'' = Inr (PStr wid)
            \<and> py_getitem result ''summary'' = Inr sm
            \<and> process_documents env self qa bom wid cb s =
                 (Inr \<lparr>workflow_id = wid, matches = ms, summary = sm\<rparr>, t)"
proof -
  from enhanced_fields[OF assms(1)] obtain sm where
    w: "py_getitem result ''workflow_id'' = Inr (PStr wid)"
    and sm: "py_getitem result ''summary'' = Inr sm" and k: "str_keyed_dict sm"
    by (elim conjE exE)
  have "process_documents env self qa bom wid cb s =
          (Inr \<lparr>workflow_id = wid, matches = ms, summary = sm\<rparr>, t)"
    unfolding process_documents_def
    using assms w sm k by (simp add: io_apply BOMComparisonResult_new_def)
  with w sm have "py_getitem result ''workflow_id'' = Inr (PStr wid)
            \<and> py_getitem result ''summary'' = Inr sm
            \<and> process_documents env self qa bom wid cb s =
                 (Inr \<lparr>workflow_id = wid, matches = ms, summary = sm\<rparr>, t)"
    by (intro conjI)
  then show ?thesis by (rule exI[where x = sm])
qed

theorem legacy_repackages_enhanced_witness:
  "list_of_str_keyed_dicts (PList [demo_match])
   \<and> fst (process_documents demo_env demo_orchestrator ''qa.txt'' ''bom.csv'' ''wf1''
            (Some ok_callback) demo_state) =
       Inr \<lparr>workflow_id = ''wf1'',
            matches = PList [demo_match],
            summary =
              PDict [(PStr ''total_materials'', PInt 1),
                     (PStr ''total_supplier_items'', PInt 1),
                     (PStr ''successful_matches'', PInt 1),
                     (PStr ''knowledge_base_matches'', PInt 0),
                     (PStr ''processing_date'', PStr ''2024-01-01T00:00:00''),
                     (PStr ''enhanced_matching'', PBool True)]\<rparr>"
proof -
  define R where
    "R = PDict
        [(PStr ''workflow_id'', PStr ''wf1''),
         (PStr ''matches'', PList [demo_match]),
         (PStr ''summary'',
          PDict
           [(PStr ''total_materials'', PInt 1),
            (PStr ''total_supplier_items'', PInt 1),
            (PStr ''successful_matches'', PInt 1),
            (PStr ''knowledge_base_matches'', PInt 0),
            (PStr ''processing_date'', PStr ''2024-01-01T00:00:00''),
            (PStr ''enhanced_matching'', PBool True)]),
         (PStr ''knowledge_base_stats'', PDict []),
         (PStr ''qa_classification_summary'',
          PDict
           [(PStr ''classification_counts'', PDict [(PInt 1, PInt 1)]),
            (PStr ''confidence_distribution'',
             PDict
              [(PStr ''high'', PInt 1), (PStr ''medium'', PInt 0),
               (PStr ''low'', PInt 0)]),
            (PStr ''total_items'', PInt 1)])]"
  define T where
    "T = snd (process_documents_enhanced demo_env demo_orchestrator ''qa.txt'' ''bom.csv''
               ''wf1'' (Some ok_callback) demo_state)"
  have h1: "process_documents_enhanced demo_env demo_orchestrator ''qa.txt'' ''bom.csv'' ''wf1''
              (Some ok_callback) demo_state = (Inr R, T)"
    by (simp add: R_def T_def prod_eq_iff run_defs demo_defs str_nat.simps)
  have h2: "py_getitem R ''matches'' = Inr (PList [demo_match])"
    by (simp add: R_def py_getitem_def)
  have h3: "list_of_str_keyed_dicts (PList [demo_match])"
    by (simp add: demo_match_def)
  from legacy_repackages_enhanced[OF h1 h2 h3] obtain sm where
    a: "py_getitem R ''summary'' = Inr sm"
    and b: "process_documents demo_env demo_orchestrator ''qa.txt'' ''bom.csv'' ''wf1''
              (Some ok_callback) demo_state =
            (Inr \<lparr>workflow_id = ''wf1'', matches = PList [demo_match], summary = sm\<rparr>, T)"
    by (elim exE conjE)
  from a have "sm = PDict [(PStr ''total_materials'', PInt 1),
                     (PStr ''total_supplier_items'', PInt 1),
                     (PStr ''successful_matches'', PInt 1),
                     (PStr ''knowledge_base_matches'', PInt 0),
                     (PStr ''processing_date'', PStr ''2024-01-01T00:00:00''),
                     (PStr ''enhanced_matching'', PBool True)]"
    by (simp add: R_def py_getitem_def)
  with b h3 show ?thesis by simp
qed

section \<open>A knowledge base that fails to initialise\<close>

lemma match_ok_record: "match_ok m \<Longrightarrow> match_record_ok m"
  by (cases m) simp_all

lemma match_ok_records: "list_all match_ok ms \<Longrightarrow> list_all match_record_ok ms"
  by (induction ms) (simp_all add: match_ok_record)

lemma count_where_score:
  "list_all match_ok ms \<Longrightarrow>
   \<exists>n. count_where
         (\<lambda>m. sum_bind (py_get m (PStr ''confidence_score'') (PInt 0)) (\<lambda>c. py_gt c 0.5)) ms
       = Inr n"
proof (induction ms)
  case Nil
  show ?case by simp
next
  case (Cons m ms)
  then obtain n where n: "count_where
         (\<lambda>m. sum_bind (py_get m (PStr ''confidence_score'') (PInt 0)) (\<lambda>c. py_gt c 0.5)) ms
       = Inr n"
    by auto
  from Cons.prems obtain d where d: "m = PDict d" by (cases m) auto
  have "\<exists>b. sum_bind (py_get m (PStr ''confidence_score'') (PInt 0)) (\<lambda>c. py_gt c 0.5) = Inr b"
    using Cons.prems
    by (auto simp: d py_get_def sum_bind_def py_gt_def split: option.splits)
  then show ?case using n by (auto simp: sum_bind_def)
qed

lemma count_where_previous:
  "list_all match_ok ms \<Longrightarrow>
   \<exists>n. count_where
         (\<lambda>m. sum_bind (py_get m (PStr ''has_previous_match'') (PBool False))
                 (\<lambda>p. Inr (truthy p))) ms
       = Inr n"
proof (induction ms)
  case Nil
  show ?case by simp
next
  case (Cons m ms)
  then obtain n where n: "count_where
         (\<lambda>m. sum_bind (py_get m (PStr ''has_previous_match'') (PBool False))
                 (\<lambda>p. Inr (truthy p))) ms
       = Inr n"
    by auto
  from Cons.prems obtain d where d: "m = PDict d" by (cases m) auto
  have "\<exists>b. sum_bind (py_get m (PStr ''has_previous_match'') (PBool False))
                 (\<lambda>p. Inr (truthy p)) = Inr b"
    by (simp add: d py_get_def sum_bind_def)
  then show ?case using n by (auto simp: sum_bind_def)
qed

lemma build_final_result_ok:
  assumes "py_len em = Inr a" and "py_len si = Inr b" and "list_all match_ok ms"
    and "knowledge_base self = None"
  shows "\<exists>r. build_final_result env self wid em si (PList ms) u =
               (Inr r, u\<lparr>world := snd (utcnow_isoformat env (world u))\<rparr>)
             \<and> py_getitem r ''knowledge_base_stats'' = Inr (PDict [])
             \<and> py_getitem r ''matches'' = Inr (PList ms)"
proof -
  from count_where_score[OF assms(3)] obtain n1 where n1: "count_where
         (\<lambda>m. sum_bind (py_get m (PStr ''confidence_score'') (PInt 0)) (\<lambda>c. py_gt c 0.5)) ms
       = Inr n1" by (elim exE)
  from count_where_previous[OF assms(3)] obtain n2 where n2: "count_where
         (\<lambda>m. sum_bind (py_get m (PStr ''has_previous_match'') (PBool False))
                 (\<lambda>p. Inr (truthy p))) ms
       = Inr n2" by (elim exE)
  from summary_of_records[OF match_ok_records[OF assms(3)]] obtain cc where
    cc: "generate_qa_classification_summary (PList ms) =
     Inr (PDict [(PStr ''classification_counts'', PDict cc),
                 (PStr ''confidence_distribution'',
                    PDict [(PStr ''high'', PInt (level_count ''high'' ms)),
                           (PStr ''medium'', PInt (level_count ''medium'' ms)),
                           (PStr ''low'', PInt (level_count ''low'' ms))]),
                 (PStr ''total_items'', PInt (int (length ms)))])"
    by (elim exE)
  define q where
    "q = PDict [(PStr ''classification_counts'', PDict cc),
                 (PStr ''confidence_distribution'',
                    PDict [(PStr ''high'', PInt (level_count ''high'' ms)),
                           (PStr ''medium'', PInt (level_count ''medium'' ms)),
                           (PStr ''low'', PInt (level_count ''low'' ms))]),
                 (PStr ''total_items'', PInt (int (length ms)))]"
  have q: "generate_qa_classification_summary (PList ms) = Inr q"
    using cc by (simp add: q_def)
  obtain now w' where now: "utcnow_isoformat env (world u) = (now, w')"
    by (cases "utcnow_isoformat env (world u)")
  define r where "r = PDict [(PStr ''workflow_id'', PStr wid),
               (PStr ''matches'', PList ms),
               (PStr ''summary'',
                  PDict [(PStr ''total_materials'', PInt (int a)),
                         (PStr ''total_supplier_items'', PInt (int b)),
                         (PStr ''successful_matches'', PInt (int n1)),
                         (PStr ''knowledge_base_matches'', PInt (int n2)),
                         (PStr ''processing_date'', PStr now),
                         (PStr ''enhanced_matching'', PBool True)]),
               (PStr ''knowledge_base_stats'', PDict []),
               (PStr ''qa_classification_summary'', q)]"
  have run: "build_final_result env self wid em si (PList ms) u =
               (Inr r, u\<lparr>world := snd (utcnow_isoformat env (world u))\<rparr>)"
    unfolding build_final_result_def
    using assms(1,2,4) n1 n2 q now
    by (simp add: io_apply sys_get_apply py_iter_def r_def)
  have "py_getitem r ''knowledge_base_stats'' = Inr (PDict [])"
    and "py_getitem r ''matches'' = Inr (PList ms)"
    by (simp_all add: r_def py_getitem_def)
  with run have "build_final_result env self wid em si (PList ms) u =
               (Inr r, u\<lparr>world := snd (utcnow_isoformat env (world u))\<rparr>)
             \<and> py_getitem r ''knowledge_base_stats'' = Inr (PDict [])
             \<and> py_getitem r ''matches'' = Inr (PList ms)"
    by (intro conjI)
  then show ?thesis by (rule exI[where x = r])
qed

lemma stage_extraction_len:
  assumes "stage_extraction env self wid cb tr s = (Inr em, t)"
  shows "\<exists>n. py_len em = Inr n"
  using assms unfolding stage_extraction_def
  apply (elim io_bind_InrE)
  apply (simp add: io_raise_apply split: if_splits)
  apply (elim io_bind_InrE)
  apply (clarsimp simp: io_of_apply io_return_apply)
  done

lemma stage_supplier_bom_len:
  assumes "stage_supplier_bom env self bom wid cb s = (Inr si, t)"
  shows "\<exists>n. py_len si = Inr n"
  using assms unfolding stage_supplier_bom_def
  apply (elim io_bind_InrE)
  apply (simp add: io_raise_apply split: if_splits)
  apply (elim io_bind_InrE)
  apply (clarsimp simp: io_of_apply io_return_apply)
  done

lemma init_without_knowledge_base:
  assumes "KnowledgeBase s0 = (Inl (Exc c m), s1)"
  shows "AgentOrchestrator_init env gemini Supplier Comparison KnowledgeBase ItemMatcher s0 =
           (Inr (degraded_orchestrator env gemini Supplier Comparison),
            s1\<lparr>logged := logged s1 @
               [(WARNING, ''Failed to initialize knowledge base: '' @ m),
                (INFO, ''Enhanced Autonomous Agent Orchestrator initialized with QA classification and Knowledge Base'')]\<rparr>)"
  unfolding AgentOrchestrator_init_def degraded_orchestrator_def
  using assms by (simp add: io_apply try_except_apply)

lemma degraded_run:
  fixes self :: "'w AgentOrchestrator"
  assumes kb: "knowledge_base self = None" and im: "item_matcher self = None"
    and h1: "stage_translation env self qa wid cb (started wid t0) = (Inr tr, t1)"
    and h2: "stage_extraction env self wid cb tr t1 = (Inr em, t2)"
    and h3: "stage_supplier_bom env self bom wid cb t2 = (Inr si, t3)"
    and h4: "notify cb ''comparison'' 85 ''Enhanced comparison agent using knowledge base...'' t3
               = (Inr (), t4)"
    and h5: "comparison_agent self em si t4 = (Inr (PList ms), t5)"
    and h6: "list_all match_ok ms"
    and h7: "notify cb ''comparison'' 95 ''Knowledge base matching completed'' t5 = (Inr (), t6)"
    and h8: "\<forall>u. \<exists>u'. notify cb ''completed'' 100 ''Processing completed successfully'' u
               = (Inr (), u')"
  shows "\<exists>result t'. process_documents_enhanced env self qa bom wid cb t0 = (Inr result, t')
           \<and> py_getitem result ''knowledge_base_stats'' = Inr (PDict [])
           \<and> py_getitem result ''matches'' = Inr (PList ms)"
proof -
  from stage_extraction_len[OF h2] obtain a where a: "py_len em = Inr a" by (elim exE)
  from stage_supplier_bom_len[OF h3] obtain b where b: "py_len si = Inr b" by (elim exE)
  define t7 where "t7 = t6\<lparr>world := snd (utcnow_isoformat env (world t6))\<rparr>"
  from build_final_result_ok[OF a b h6 kb, of env wid t6] obtain r where
    r: "build_final_result env self wid em si (PList ms) t6 = (Inr r, t7)"
    and r1: "py_getitem r ''knowledge_base_stats'' = Inr (PDict [])"
    and r2: "py_getitem r ''matches'' = Inr (PList ms)"
    unfolding t7_def by (elim exE conjE)
  obtain t8 where sv: "save_stage_result env wid ''final'' r t7 = (Inr (), t8)"
    using save_returns[of env wid "''final''" r t7] by (elim exE conjE)
  from h8 obtain t9 where
    fin: "notify cb ''completed'' 100 ''Processing completed successfully'' t8 = (Inr (), t9)"
    by (elim allE[where x = t8] exE)
  define t' where
    "t' = t9\<lparr>logged := logged t9 @
             [(INFO, ''Enhanced workflow '' @ wid @ '' completed successfully'')]\<rparr>"
  have cmp: "stage_comparison env self wid cb em si t3 = (Inr r, t')"
    unfolding stage_comparison_def
    using h4 im h5 h7 r sv fin by (simp add: io_apply t'_def)
  have "try_block env self qa bom wid cb (started wid t0) = (Inr r, t')"
    unfolding try_block_def using h1 h2 h3 cmp by (simp add: io_bind_apply)
  then have "process_documents_enhanced env self qa bom wid cb t0 = (Inr r, t')"
    by (rule enhanced_Inr)
  with r1 r2 have "process_documents_enhanced env self qa bom wid cb t0 = (Inr r, t')
           \<and> py_getitem r ''knowledge_base_stats'' = Inr (PDict [])
           \<and> py_getitem r ''matches'' = Inr (PList ms)"
    by (intro conjI)
  then show ?thesis by (intro exI[where x = r] exI[where x = t'])
qed

text \<open>
  Claim C4. If the knowledge base raises when the orchestrator is constructed, the
  constructor returns an orchestrator all the same, with \<^verbatim>\<open>knowledge_base\<close> and
  \<^verbatim>\<open>item_matcher\<close> both \<^verbatim>\<open>None\<close> and a warning logged. A workflow run with it, in which
  the first three stages succeed, the comparison agent (the fallback path) returns a list
  of match records and the callback returns, completes, and its result carries the
  comparison agent's matches and the empty \<^verbatim>\<open>knowledge_base_stats\<close>.
\<close>

theorem knowledge_base_failure_is_soft:
  fixes env :: "'w sys" and gemini :: 'g
  assumes "KnowledgeBase s0 = (Inl (Exc c m), s1)"
  shows "AgentOrchestrator_init env gemini Supplier Comparison KnowledgeBase ItemMatcher s0 =
           (Inr (degraded_orchestrator env gemini Supplier Comparison),
            s1\<lparr>logged := logged s1 @
               [(WARNING, ''Failed to initialize knowledge base: '' @ m),
                (INFO, ''Enhanced Autonomous Agent Orchestrator initialized with QA classification and Knowledge Base'')]\<rparr>)
     \<and> knowledge_base (degraded_orchestrator env gemini Supplier Comparison) = None
     \<and> item_matcher (degraded_orchestrator env gemini Supplier Comparison) = None
     \<and> (stage_translation env (degraded_orchestrator env gemini Supplier Comparison) qa wid cb
           (started wid t0) = (Inr tr, t1)
        \<and> stage_extraction env (degraded_orchestrator env gemini Supplier Comparison) wid cb tr t1
            = (Inr em, t2)
        \<and> stage_supplier_bom env (degraded_orchestrator env gemini Supplier Comparison) bom wid cb t2
            = (Inr si, t3)
        \<and> notify cb ''comparison'' 85 ''Enhanced comparison agent using knowledge base...'' t3
            = (Inr (), t4)
        \<and> Comparison em si t4 = (Inr (PList ms), t5)
        \<and> list_all match_ok ms
        \<and> notify cb ''comparison'' 95 ''Knowledge base matching completed'' t5 = (Inr (), t6)
        \<and> (\<forall>u. \<exists>u'. notify cb ''completed'' 100 ''Processing completed successfully'' u
              = (Inr (), u'))
        \<longrightarrow> (\<exists>result t'.
               process_documents_enhanced env (degraded_orchestrator env gemini Supplier Comparison)
                 qa bom wid cb t0 = (Inr result, t')
               \<and> py_getitem result ''knowledge_base_stats'' = Inr (PDict [])
               \<and> py_getitem result ''matches'' = Inr (PList ms)))"
proof (intro conjI impI)
  show "AgentOrchestrator_init env gemini Supplier Comparison KnowledgeBase ItemMatcher s0 =
           (Inr (degraded_orchestrator env gemini Supplier Comparison),
            s1\<lparr>logged := logged s1 @
               [(WARNING, ''Failed to initialize knowledge base: '' @ m),
                (INFO, ''Enhanced Autonomous Agent Orchestrator initialized with QA classification and Knowledge Base'')]\<rparr>)"
    using assms by (rule init_without_knowledge_base)
  show kb: "knowledge_base (degraded_orchestrator env gemini Supplier Comparison) = None"
    by (simp add: degraded_orchestrator_def)
  show im: "item_matcher (degraded_orchestrator env gemini Supplier Comparison) = None"
    by (simp add: degraded_orchestrator_def)
  assume h: "stage_translation env (degraded_orchestrator env gemini Supplier Comparison) qa wid cb
           (started wid t0) = (Inr tr, t1)
        \<and> stage_extraction env (degraded_orchestrator env gemini Supplier Comparison) wid cb tr t1
            = (Inr em, t2)
        \<and> stage_supplier_bom env (degraded_orchestrator env gemini Supplier Comparison) bom wid cb t2
            = (Inr si, t3)
        \<and> notify cb ''comparison'' 85 ''Enhanced comparison agent using knowledge base...'' t3
            = (Inr (), t4)
        \<and> Comparison em si t4 = (Inr (PList ms), t5)
        \<and> list_all match_ok ms
        \<and> notify cb ''comparison'' 95 ''Knowledge base matching completed'' t5 = (Inr (), t6)
        \<and> (\<forall>u. \<exists>u'. notify cb ''completed'' 100 ''Processing completed successfully'' u
              = (Inr (), u'))"
  have c: "comparison_agent (degraded_orchestrator env gemini Supplier Comparison) = Comparison"
    by (simp add: degraded_orchestrator_def)
  show "\<exists>result t'.
               process_documents_enhanced env (degraded_orchestrator env gemini Supplier Comparison)
                 qa bom wid cb t0 = (Inr result, t')
               \<and> py_getitem result ''knowledge_base_stats'' = Inr (PDict [])
               \<and> py_getitem result ''matches'' = Inr (PList ms)"
    by (rule degraded_run[where self = "degraded_orchestrator env gemini Supplier Comparison"
          and ?t1.0 = t1 and ?t2.0 = t2 and ?t3.0 = t3 and ?t4.0 = t4 and ?t5.0 = t5
          and ?t6.0 = t6 and tr = tr and em = em and si = si, OF kb im])
       (use h c in simp_all)
qed

theorem knowledge_base_failure_is_soft_witness:
  "broken_knowledge_base demo_state
     = (Inl (Exc ''OSError'' ''knowledge base unavailable''), demo_state)
   \<and> fst (AgentOrchestrator_init demo_env () demo_supplier_agent demo_comparison_agent
            broken_knowledge_base demo_item_matcher demo_state)
       = Inr (degraded_orchestrator demo_env () demo_supplier_agent demo_comparison_agent)
   \<and> list_all match_ok [demo_match]
   \<and> (\<exists>result t'.
         process_documents_enhanced demo_env
           (degraded_orchestrator demo_env () demo_supplier_agent demo_comparison_agent)
           ''qa.txt'' ''bom.csv'' ''wf1'' (Some ok_callback) demo_state = (Inr result, t')
         \<and> py_getitem result ''knowledge_base_stats'' = Inr (PDict [])
         \<and> py_getitem result ''matches'' = Inr (PList [demo_match]))"
proof -
  define self where
    "self = degraded_orchestrator demo_env () demo_supplier_agent demo_comparison_agent"
  define cb where "cb = Some ok_callback"
  define tr where "tr = PDict [(PStr ''original_content'', PStr ''Bolt M6''),
                      (PStr ''translated_content'', PStr ''Bolt M6''),
                      (PStr ''source_language'', PStr ''ja''),
                      (PStr ''target_language'', PStr ''en''),
                      (PStr ''translation_confidence'', PFloat 0.95)]"
  define si where "si = PList [PDict [(PStr ''item_name'', PStr ''Bolt M6x20'')]]"
  define t1 where
    "t1 = snd (stage_translation demo_env self ''qa.txt'' ''wf1'' cb (started ''wf1'' demo_state))"
  define t2 where "t2 = snd (stage_extraction demo_env self ''wf1'' cb tr t1)"
  define t3 where "t3 = snd (stage_supplier_bom demo_env self ''bom.csv'' ''wf1'' cb t2)"
  define t4 where "t4 = snd (notify cb ''comparison'' 85
                               ''Enhanced comparison agent using knowledge base...'' t3)"
  define t6 where "t6 = snd (notify cb ''comparison'' 95
                               ''Knowledge base matching completed'' t4)"
  note fix_defs = self_def cb_def tr_def si_def degraded_orchestrator_def
    demo_supplier_agent_def demo_comparison_agent_def mock_material_def
  have k: "broken_knowledge_base demo_state
     = (Inl (Exc ''OSError'' ''knowledge base unavailable''), demo_state)"
    by (simp add: broken_knowledge_base_def io_raise_apply)
  have h: "stage_translation demo_env self ''qa.txt'' ''wf1'' cb (started ''wf1'' demo_state)
             = (Inr tr, t1)
        \<and> stage_extraction demo_env self ''wf1'' cb tr t1 = (Inr (PList [mock_material]), t2)
        \<and> stage_supplier_bom demo_env self ''bom.csv'' ''wf1'' cb t2 = (Inr si, t3)
        \<and> notify cb ''comparison'' 85 ''Enhanced comparison agent using knowledge base...'' t3
            = (Inr (), t4)
        \<and> demo_comparison_agent (PList [mock_material]) si t4 = (Inr (PList [demo_match]), t4)
        \<and> list_all match_ok [demo_match]
        \<and> notify cb ''comparison'' 95 ''Knowledge base matching completed'' t4 = (Inr (), t6)
        \<and> (\<forall>u. \<exists>u'. notify cb ''completed'' 100 ''Processing completed successfully'' u
              = (Inr (), u'))"
    by (simp add: t6_def t4_def t3_def t2_def t1_def fix_defs run_defs demo_defs str_nat.simps)
  note T = knowledge_base_failure_is_soft[where KnowledgeBase = broken_knowledge_base
      and ?s0.0 = demo_state and c = "''OSError''" and m = "''knowledge base unavailable''"
      and ?s1.0 = demo_state and env = demo_env and gemini = "()"
      and Supplier = demo_supplier_agent and Comparison = demo_comparison_agent
      and ItemMatcher = demo_item_matcher
      and qa = "''qa.txt''" and bom = "''bom.csv''" and wid = "''wf1''" and cb = cb
      and ?t0.0 = demo_state and tr = tr and ?t1.0 = t1 and em = "PList [mock_material]"
      and ?t2.0 = t2 and si = si and ?t3.0 = t3 and ?t4.0 = t4 and ms = "[demo_match]"
      and ?t5.0 = t4 and ?t6.0 = t6, OF k, folded self_def]
  from T have i: "AgentOrchestrator_init demo_env () demo_supplier_agent demo_comparison_agent
            broken_knowledge_base demo_item_matcher demo_state =
           (Inr self,
            demo_state\<lparr>logged := logged demo_state @
               [(WARNING, ''Failed to initialize knowledge base: '' @ ''knowledge base unavailable''),
                (INFO, ''Enhanced Autonomous Agent Orchestrator initialized with QA classification and Knowledge Base'')]\<rparr>)"
    by (rule conjunct1)
  then have i': "fst (AgentOrchestrator_init demo_env () demo_supplier_agent demo_comparison_agent
            broken_knowledge_base demo_item_matcher demo_state) = Inr self"
    by simp
  from T have "stage_translation demo_env self ''qa.txt'' ''wf1'' cb (started ''wf1'' demo_state)
             = (Inr tr, t1)
        \<and> stage_extraction demo_env self ''wf1'' cb tr t1 = (Inr (PList [mock_material]), t2)
        \<and> stage_supplier_bom demo_env self ''bom.csv'' ''wf1'' cb t2 = (Inr si, t3)
        \<and> notify cb ''comparison'' 85 ''Enhanced comparison agent using knowledge base...'' t3
            = (Inr (), t4)
        \<and> demo_comparison_agent (PList [mock_material]) si t4 = (Inr (PList [demo_match]), t4)
        \<and> list_all match_ok [demo_match]
        \<and> notify cb ''comparison'' 95 ''Knowledge base matching completed'' t4 = (Inr (), t6)
        \<and> (\<forall>u. \<exists>u'. notify cb ''completed'' 100 ''Processing completed successfully'' u
              = (Inr (), u'))
        \<longrightarrow> (\<exists>result t'.
               process_documents_enhanced demo_env self ''qa.txt'' ''bom.csv'' ''wf1'' cb
                 demo_state = (Inr result, t')
               \<and> py_getitem result ''knowledge_base_stats'' = Inr (PDict [])
               \<and> py_getitem result ''matches'' = Inr (PList [demo_match]))"
    by (elim conjE)
  from mp[OF this h] have r: "\<exists>result t'.
               process_documents_enhanced demo_env self ''qa.txt'' ''bom.csv'' ''wf1'' cb
                 demo_state = (Inr result, t')
               \<and> py_getitem result ''knowledge_base_stats'' = Inr (PDict [])
               \<and> py_getitem result ''matches'' = Inr (PList [demo_match])" .
  have m: "list_all match_ok [demo_match]" using h by (elim conjE)
  show ?thesis
    using k i' m r unfolding self_def cb_def by (intro conjI)
qed

end
